theory Spec2Isabelle
  imports Complex_Main "HOL-Library.Word"
begin

section \<open>Values shared by the three adapters\<close>

text \<open>
  The adapters are ECMAScript programs that read one JSON envelope and write one JSON
  response.  A parsed JSON text is a value of \<open>json\<close>; a property that is absent
  (\<^verbatim>\<open>undefined\<close>) is \<open>None\<close> of \<open>json option\<close>.  A number is the rational
  that the finite double denotes.  Strings are lists of 8-bit code units, so the model
  covers the strings whose code units are below 256.  An object keeps its properties in
  insertion order with distinct keys.
\<close>

datatype json =
    JNull
  | JBool bool
  | JNum rat
  | JStr string
  | JArr "json list"
  | JObj "(string \<times> json) list"

fun isRecord :: "json option \<Rightarrow> bool" where
  "isRecord (Some (JObj kvs)) = True"
| "isRecord _ = False"

text \<open>Property access \<^verbatim>\<open>value.key\<close> on a value that is known to be an object, and
  \<^verbatim>\<open>value?.key\<close> on any value.\<close>

fun obj_get :: "json \<Rightarrow> string \<Rightarrow> json option" where
  "obj_get (JObj kvs) k = map_of kvs k"
| "obj_get _ k = None"

fun opt_get :: "json option \<Rightarrow> string \<Rightarrow> json option" where
  "opt_get (Some v) k = obj_get v k"
| "opt_get None k = None"

text \<open>Assignment \<^verbatim>\<open>obj[key] = value\<close>: an existing property keeps its place.\<close>

fun assoc_set :: "string \<Rightarrow> json \<Rightarrow> (string \<times> json) list \<Rightarrow> (string \<times> json) list" where
  "assoc_set k v [] = [(k, v)]"
| "assoc_set k v ((k', v') # kvs) =
     (if k = k' then (k, v) # kvs else (k', v') # assoc_set k v kvs)"

fun obj_set :: "string \<Rightarrow> json \<Rightarrow> json \<Rightarrow> json" where
  "obj_set k v (JObj kvs) = JObj (assoc_set k v kvs)"
| "obj_set k v other = other"

text \<open>An object literal \<^verbatim>\<open>{ ...a, ...b }\<close>: the properties of \<open>b\<close> are assigned
  one after the other onto those of \<open>a\<close>.\<close>

definition spread :: "(string \<times> json) list \<Rightarrow> (string \<times> json) list \<Rightarrow> (string \<times> json) list" where
  "spread a b = foldl (\<lambda>acc (k, v). assoc_set k v acc) a b"

text \<open>A property whose value is \<^verbatim>\<open>undefined\<close> is dropped when the object is
  serialised; \<open>defined_props\<close> builds an object literal from optional values that way.\<close>

fun defined_props :: "(string \<times> json option) list \<Rightarrow> (string \<times> json) list" where
  "defined_props [] = []"
| "defined_props ((k, None) # rest) = defined_props rest"
| "defined_props ((k, Some v) # rest) = (k, v) # defined_props rest"

text \<open>\<^verbatim>\<open>String.prototype.trim\<close> strips white space and line terminators; below 256
  these are TAB, LF, VT, FF, CR, SPACE and NBSP.\<close>

definition is_js_space :: "char \<Rightarrow> bool" where
  "is_js_space c = ((of_char c :: nat) \<in> {9, 10, 11, 12, 13, 32, 160})"

definition js_trim :: "string \<Rightarrow> string" where
  "js_trim s = rev (dropWhile is_js_space (rev (dropWhile is_js_space s)))"

fun readString :: "json option \<Rightarrow> string option" where
  "readString (Some (JStr s)) = (let trimmed = js_trim s in if trimmed = [] then None else Some trimmed)"
| "readString _ = None"

fun readBoolean :: "json option \<Rightarrow> bool \<Rightarrow> bool" where
  "readBoolean (Some (JBool b)) fallback = b"
| "readBoolean _ fallback = fallback"

text \<open>ECMAScript truthiness of a JSON value (\<^verbatim>\<open>ToBoolean\<close>).\<close>

fun truthy :: "json option \<Rightarrow> bool" where
  "truthy None = False"
| "truthy (Some JNull) = False"
| "truthy (Some (JBool b)) = b"
| "truthy (Some (JNum n)) = (n \<noteq> 0)"
| "truthy (Some (JStr s)) = (s \<noteq> [])"
| "truthy (Some (JArr xs)) = True"
| "truthy (Some (JObj kvs)) = True"

fun opt_json :: "json option \<Rightarrow> json" where
  "opt_json None = JNull"
| "opt_json (Some v) = v"


section \<open>The process and its surroundings\<close>

text \<open>
  What the adapter process finds around it and cannot compute by itself: the environment
  variables, the platform's default directories, \<^verbatim>\<open>path.join\<close>, \<^verbatim>\<open>JSON.parse\<close>
  (\<open>None\<close> when it throws a SyntaxError), the SHA-256 digest bytes of
  \<^verbatim>\<open>node:crypto\<close> and \<^verbatim>\<open>fs.stat\<close> on the configuration file.
\<close>

record host =
  environ :: "string \<Rightarrow> string option"
  default_state_dir :: string
  default_config_path :: string
  path_join :: "string \<Rightarrow> string \<Rightarrow> string"
  json_parse :: "string \<Rightarrow> json option"
  sha256 :: "string \<Rightarrow> 8 word list"
  file_exists :: "string \<Rightarrow> bool"

text \<open>A child process either cannot be spawned (the promise of \<^verbatim>\<open>runCommand\<close> is
  rejected) or closes with an exit code (\<^verbatim>\<open>null\<close> when a signal ended it), a signal
  and its captured output.  The \<open>runner\<close> says what each command line does.\<close>

record exec_result =
  ex_code :: "int option"
  ex_signal :: "string option"
  ex_killed :: bool
  ex_stdout :: string
  ex_stderr :: string

datatype run_outcome = SpawnError string | Closed exec_result

type_synonym runner = "string list \<Rightarrow> string option \<Rightarrow> run_outcome"

text \<open>
  The state that outlives one adapter process: the JSON documents in the state directory
  (\<open>files p\<close> is what \<^verbatim>\<open>JSON.parse\<close> gives on the text of the file at \<open>p\<close>, \<open>None\<close>
  when the file is missing or does not parse; a document written with
  \<^verbatim>\<open>JSON.stringify\<close> is read back as the same value) and the log of the command lines
  that were spawned, each with the text piped to its standard input.
\<close>

record world =
  files :: "string \<Rightarrow> json option"
  spawned :: "(string list \<times> string option) list"

text \<open>A computation that may throw.  A thrown error has a name and a message;
  \<^verbatim>\<open>String(err)\<close> joins them.  The message of a SyntaxError is the engine's own and
  is not modelled.\<close>

datatype js_error = JsError string string

fun error_message :: "js_error \<Rightarrow> string" where
  "error_message (JsError name msg) = msg"

fun error_string :: "js_error \<Rightarrow> string" where
  "error_string (JsError name msg) = name @ '': '' @ msg"

datatype 'a attempt = Raised js_error | Done 'a

text \<open>What a handler returns, and what the process leaves behind: the JSON line on
  standard output and the exit code.\<close>

record response =
  exitCode :: int
  body :: json

record proc_result =
  exit_code :: int
  printed :: json

section \<open>The mail adapter (himalaya-mail-adapter.js)\<close>

text \<open>
  Fields of the responses and of the stored records that only report sizes and times
  (\<^verbatim>\<open>bytes\<close>, \<^verbatim>\<open>ts\<close>, \<^verbatim>\<open>timeoutMs\<close>, \<^verbatim>\<open>durationMs\<close>, \<^verbatim>\<open>stdoutJsonError\<close>) are
  left out of the modelled objects: no branch of the adapter reads them.  The time-out
  is part of what the \<open>runner\<close> stands for.
\<close>

definition readJsonStdin :: "host \<Rightarrow> string \<Rightarrow> json attempt" where
  "readJsonStdin h input =
     (let text = js_trim input in
      if text = [] then Raised (JsError ''Error'' ''empty stdin; expected JSON envelope'')
      else case json_parse h text of
             None \<Rightarrow> Raised (JsError ''SyntaxError'' [])
           | Some v \<Rightarrow> Done v)"

definition hex_digit :: "nat \<Rightarrow> char" where
  "hex_digit n = ''0123456789abcdef'' ! (n mod 16)"

definition hex_byte :: "8 word \<Rightarrow> string" where
  "hex_byte b = [hex_digit (unat b div 16), hex_digit (unat b mod 16)]"

definition sha256Hex :: "host \<Rightarrow> string \<Rightarrow> string" where
  "sha256Hex h input = concat (map hex_byte (sha256 h input))"

record settings =
  st_binary :: string
  st_configPath :: "string option"
  st_account :: "string option"
  st_folder :: string
  st_stateDir :: "string option"
  st_payload :: json

definition env_string :: "host \<Rightarrow> string \<Rightarrow> string option" where
  "env_string h name = readString (map_option JStr (environ h name))"

definition orElse :: "'a option \<Rightarrow> 'a option \<Rightarrow> 'a option" where
  "orElse a b = (case a of Some x \<Rightarrow> Some x | None \<Rightarrow> b)"

definition resolveAdapterSettings :: "host \<Rightarrow> json \<Rightarrow> settings" where
  "resolveAdapterSettings h envelope =
     (let payload = (if isRecord (obj_get envelope ''payload'')
                     then the (obj_get envelope ''payload'') else JObj [])
      in \<lparr> st_binary = (case env_string h ''MYOPS_HIMALAYA_BIN'' of Some b \<Rightarrow> b | None \<Rightarrow> ''himalaya''),
           st_configPath = orElse (readString (obj_get payload ''configPath''))
                                  (env_string h ''MYOPS_HIMALAYA_CONFIG''),
           st_account = orElse (readString (obj_get payload ''account''))
                               (env_string h ''MYOPS_HIMALAYA_ACCOUNT''),
           st_folder = (case orElse (readString (obj_get payload ''folder''))
                                    (env_string h ''MYOPS_HIMALAYA_FOLDER'') of
                          Some f \<Rightarrow> f | None \<Rightarrow> ''INBOX''),
           st_stateDir = orElse (readString (obj_get payload ''stateDir''))
                                (env_string h ''MYOPS_HIMALAYA_STATE_DIR''),
           st_payload = payload \<rparr>)"

text \<open>No caller passes \<^verbatim>\<open>jsonOutput\<close> or \<^verbatim>\<open>quiet\<close>, so both keep their defaults.\<close>

definition buildGlobalArgs :: "settings \<Rightarrow> string list" where
  "buildGlobalArgs s =
     [''-o'', ''json'']
     @ (case st_configPath s of Some c \<Rightarrow> [''-c'', c] | None \<Rightarrow> [])
     @ [''--quiet'']"

definition withAccountArg :: "string list \<Rightarrow> string option \<Rightarrow> string list" where
  "withAccountArg subcommandArgs account =
     (case account of
        None \<Rightarrow> subcommandArgs
      | Some a \<Rightarrow>
          (let insertAt = (if length subcommandArgs \<ge> 2 then 2 else length subcommandArgs)
           in take insertAt subcommandArgs @ [''-a'', a] @ drop insertAt subcommandArgs))"

definition runCommand :: "runner \<Rightarrow> string list \<Rightarrow> string option \<Rightarrow> world
                          \<Rightarrow> exec_result attempt \<times> world" where
  "runCommand run argv input w =
     (let w' = w\<lparr> spawned := spawned w @ [(argv, input)] \<rparr>
      in case run argv input of
           SpawnError msg \<Rightarrow> (Raised (JsError ''Error'' msg), w')
         | Closed r \<Rightarrow> (Done r, w'))"

record run_result =
  rr_ok :: bool
  rr_argv :: "string list"
  rr_exec :: exec_result
  rr_stdoutJson :: "json option"

definition runHimalaya :: "host \<Rightarrow> runner \<Rightarrow> settings \<Rightarrow> string list \<Rightarrow> bool \<Rightarrow> string option
                           \<Rightarrow> world \<Rightarrow> run_result attempt \<times> world" where
  "runHimalaya h run s subcommandArgs includeAccount input w =
     (let argv = st_binary s # buildGlobalArgs s
                 @ (if includeAccount then withAccountArg subcommandArgs (st_account s)
                    else subcommandArgs)
      in case runCommand run argv input w of
           (Raised e, w') \<Rightarrow> (Raised e, w')
         | (Done r, w') \<Rightarrow>
             (let trimmed = js_trim (ex_stdout r)
              in (Done \<lparr> rr_ok = (ex_code r = Some 0),
                         rr_argv = argv,
                         rr_exec = r,
                         rr_stdoutJson = (if trimmed \<noteq> [] then json_parse h trimmed else None) \<rparr>,
                  w')))"

definition resolveIdempotencyStorePath :: "host \<Rightarrow> settings \<Rightarrow> string" where
  "resolveIdempotencyStorePath h s =
     path_join h (case st_stateDir s of Some d \<Rightarrow> d | None \<Rightarrow> default_state_dir h)
                 ''himalaya-mail-idempotency.json''"

text \<open>The store is returned as the properties of its \<^verbatim>\<open>keys\<close> object; its
  \<^verbatim>\<open>version\<close> is always 1.\<close>

definition readIdempotencyStore :: "world \<Rightarrow> string \<Rightarrow> (string \<times> json) list" where
  "readIdempotencyStore w filePath =
     (case files w filePath of
        Some (JObj props) \<Rightarrow>
          (case map_of props ''keys'' of
             Some (JObj keys) \<Rightarrow> keys
           | _ \<Rightarrow> [])
      | _ \<Rightarrow> [])"

definition writeIdempotencyStore :: "string \<Rightarrow> (string \<times> json) list \<Rightarrow> world \<Rightarrow> world" where
  "writeIdempotencyStore filePath keys w =
     w\<lparr> files := (files w)(filePath \<mapsto> JObj [(''version'', JNum 1), (''keys'', JObj keys)]) \<rparr>"

definition buildIdempotencyEntryKey :: "string option \<Rightarrow> string \<Rightarrow> string \<Rightarrow> string" where
  "buildIdempotencyEntryKey account mode idempotencyKey =
     (case account of Some a \<Rightarrow> a | None \<Rightarrow> ''default'') @ ''::'' @ mode @ ''::'' @ idempotencyKey"

definition envelopeOkResponse :: "string \<Rightarrow> (string \<times> json) list \<Rightarrow> json" where
  "envelopeOkResponse action payload =
     JObj (spread [(''ok'', JBool True), (''domain'', JStr ''mail''), (''action'', JStr action),
                   (''adapter'', JStr ''himalaya'')] payload)"

definition envelopeErrorResponse :: "string \<Rightarrow> (string \<times> json) list \<Rightarrow> json" where
  "envelopeErrorResponse action payload =
     JObj (spread [(''ok'', JBool False), (''domain'', JStr ''mail''), (''action'', JStr action),
                   (''adapter'', JStr ''himalaya'')] payload)"

definition exec_json :: "exec_result \<Rightarrow> json" where
  "exec_json r =
     JObj [(''code'', (case ex_code r of Some c \<Rightarrow> JNum (of_int c) | None \<Rightarrow> JNull)),
           (''signal'', (case ex_signal r of Some sg \<Rightarrow> JStr sg | None \<Rightarrow> JNull)),
           (''killed'', JBool (ex_killed r))]"

text \<open>The \<^verbatim>\<open>result\<close> object that every handler puts into its response.\<close>

definition result_json :: "run_result \<Rightarrow> json" where
  "result_json r =
     JObj (defined_props [(''exec'', Some (exec_json (rr_exec r))),
                   (''stdoutJson'', rr_stdoutJson r),
                   (''stderr'', (if ex_stderr (rr_exec r) = [] then None
                                 else Some (JStr (ex_stderr (rr_exec r))))),
                   (''stdoutRaw'', (if rr_stdoutJson r = None
                                    then Some (JStr (ex_stdout (rr_exec r))) else None))])"

text \<open>The \<^verbatim>\<open>result\<close> object of the deep probe in the health response, which has no
  \<^verbatim>\<open>stdoutRaw\<close>.\<close>

definition probe_json :: "run_result \<Rightarrow> json" where
  "probe_json r =
     JObj (defined_props [(''exec'', Some (exec_json (rr_exec r))),
                          (''stdoutJson'', rr_stdoutJson r),
                          (''stderr'', (if ex_stderr (rr_exec r) = [] then None
                                        else Some (JStr (ex_stderr (rr_exec r)))))])"

definition wrap_result :: "string \<Rightarrow> run_result \<Rightarrow> (string \<times> json) list \<Rightarrow> response" where
  "wrap_result action r extra =
     \<lparr> exitCode = (if rr_ok r then 0 else 3),
       body = (if rr_ok r then envelopeOkResponse else envelopeErrorResponse) action
                (extra @ [(''result'', result_json r)]) \<rparr>"


definition settings_json :: "settings \<Rightarrow> json" where
  "settings_json s =
     JObj [(''binary'', JStr (st_binary s)),
           (''configPath'', (case st_configPath s of Some c \<Rightarrow> JStr c | None \<Rightarrow> JNull)),
           (''account'', (case st_account s of Some a \<Rightarrow> JStr a | None \<Rightarrow> JNull)),
           (''folder'', JStr (st_folder s))]"

definition handleHealth :: "host \<Rightarrow> runner \<Rightarrow> json \<Rightarrow> string \<Rightarrow> world \<Rightarrow> response attempt \<times> world" where
  "handleHealth h run envelope action w =
     (let s = resolveAdapterSettings h envelope;
          cfgPath = (case st_configPath s of Some c \<Rightarrow> c | None \<Rightarrow> default_config_path h)
      in case runCommand run [st_binary s, ''--version''] None w of
           (Raised e, w1) \<Rightarrow>
             (Done \<lparr> exitCode = 3,
                     body = envelopeErrorResponse action
                              [(''error'', JStr (''failed to execute himalaya: '' @ error_string e)),
                               (''settings'', settings_json s)] \<rparr>, w1)
         | (Done versionResult, w1) \<Rightarrow>
             (let deep = readBoolean (obj_get (st_payload s) ''deep'') False;
                  probing = (deep \<and> (st_account s \<noteq> None \<or> st_configPath s \<noteq> None))
              in case (if probing
                       then (case runHimalaya h run s [''envelope'', ''list'', ''-f'', st_folder s, ''-s'', ''1'']
                                     True None w1 of
                               (Raised e, w2) \<Rightarrow> (Raised e, w2)
                             | (Done r, w2) \<Rightarrow> (Done (Some r), w2))
                       else (Done None, w1)) of
                   (Raised e, w2) \<Rightarrow> (Raised e, w2)
                 | (Done deepProbe, w2) \<Rightarrow>
                     (Done \<lparr> exitCode = (if ex_code versionResult = Some 0 then 0 else 3),
                             body = envelopeOkResponse action
                               [(''settings'', settings_json s),
                                (''checks'',
                                   JObj [(''binaryVersion'',
                                            (if js_trim (ex_stdout versionResult) = [] then JNull
                                             else JStr (js_trim (ex_stdout versionResult)))),
                                         (''binaryOk'', JBool (ex_code versionResult = Some 0)),
                                         (''configPathChecked'', JStr cfgPath),
                                         (''configPathExists'', JBool (file_exists h cfgPath))]),
                                (''probe'',
                                   (if deep
                                    then JObj (defined_props
                                           [(''requested'', Some (JBool True)),
                                            (''ok'', Some (JBool (case deepProbe of Some r \<Rightarrow> rr_ok r
                                                                                 | None \<Rightarrow> False))),
                                            (''result'', map_option probe_json deepProbe)])
                                    else JObj [(''requested'', JBool False)]))] \<rparr>, w2)))"

definition mode_name :: "bool \<Rightarrow> string" where
  "mode_name useTemplate = (if useTemplate then ''template'' else ''raw-message'')"

text \<open>The record that \<^verbatim>\<open>handleSendMessage\<close> stores under the entry key after a send
  that succeeded.\<close>

definition idempotency_record :: "string \<Rightarrow> settings \<Rightarrow> bool \<Rightarrow> string \<Rightarrow> run_result \<Rightarrow> json" where
  "idempotency_record idempotencyKey s useTemplate contentHash r =
     JObj [(''idempotencyKey'', JStr idempotencyKey),
           (''account'', (case st_account s of Some a \<Rightarrow> JStr a | None \<Rightarrow> JNull)),
           (''mode'', JStr (mode_name useTemplate)),
           (''contentHash'', JStr contentHash),
           (''exec'', exec_json (rr_exec r)),
           (''stdoutJson'', opt_json (rr_stdoutJson r))]"

text \<open>The second half of \<^verbatim>\<open>handleSendMessage\<close> (from \<^verbatim>\<open>const args = ...\<close> on): the
  backend send, the write of the store when the send succeeded and a key with its store
  is at hand, and the response.  \<open>idempotencyMeta\<close> holds the store path, the store as
  read before the send and the entry key.\<close>

definition sendAndRecord ::
  "host \<Rightarrow> runner \<Rightarrow> string \<Rightarrow> settings \<Rightarrow> bool \<Rightarrow> string \<Rightarrow> string \<Rightarrow> string option
   \<Rightarrow> (string \<times> (string \<times> json) list \<times> string) option \<Rightarrow> world \<Rightarrow> response attempt \<times> world" where
  "sendAndRecord h run action s useTemplate content contentHash idempotencyKey idempotencyMeta w =
     (let args = (if useTemplate then [''template'', ''send''] else [''message'', ''send''])
      in case runHimalaya h run s args True (Some content) w of
           (Raised e, w1) \<Rightarrow> (Raised e, w1)
         | (Done result, w1) \<Rightarrow>
             (let w2 = (case (idempotencyKey, idempotencyMeta) of
                          (Some k, Some (storePath, store, entryKey)) \<Rightarrow>
                            (if rr_ok result
                             then writeIdempotencyStore storePath
                                    (assoc_set entryKey
                                       (idempotency_record k s useTemplate contentHash result) store) w1
                             else w1)
                        | _ \<Rightarrow> w1)
              in (Done (wrap_result action result
                          (defined_props
                             [(''request'', Some (JObj [(''mode'', JStr (mode_name useTemplate))])),
                              (''idempotency'',
                                 (case idempotencyKey of
                                    None \<Rightarrow> None
                                  | Some k \<Rightarrow>
                                      Some (JObj (defined_props
                                        [(''key'', Some (JStr k)),
                                         (''duplicate'', Some (JBool False)),
                                         (''storePath'',
                                            map_option (\<lambda>(storePath, store, entryKey). JStr storePath)
                                                       idempotencyMeta),
                                         (''contentHash'', Some (JStr contentHash))]))))])),
                  w2)))"

definition handleSendMessage :: "host \<Rightarrow> runner \<Rightarrow> json \<Rightarrow> string \<Rightarrow> world \<Rightarrow> response attempt \<times> world" where
  "handleSendMessage h run envelope action w =
     (let s = resolveAdapterSettings h envelope;
          payload = st_payload s;
          rawMessage = orElse (readString (obj_get payload ''rawMessage''))
                         (orElse (readString (obj_get payload ''message''))
                                 (readString (obj_get payload ''raw'')));
          template = readString (obj_get payload ''template'')
      in if rawMessage = None \<and> template = None
         then (Done \<lparr> exitCode = 2,
                      body = envelopeErrorResponse action
                        [(''error'', JStr ''payload.rawMessage (or payload.message/raw) or payload.template required'')] \<rparr>,
               w)
         else
           (let useTemplate = (template \<noteq> None \<or> readString (obj_get payload ''format'') = Some ''mml'');
                content = (case orElse template rawMessage of Some c \<Rightarrow> c | None \<Rightarrow> []);
                contentHash = sha256Hex h content;
                idempotencyKey = orElse (readString (obj_get envelope ''idempotencyKey''))
                                        (readString (obj_get payload ''idempotencyKey''));
                idempotencyRequired = readBoolean (obj_get payload ''requireIdempotencyKey'') False
            in if idempotencyRequired \<and> idempotencyKey = None
               then (Done \<lparr> exitCode = 2,
                            body = envelopeErrorResponse action
                              [(''error'', JStr ''idempotencyKey required (payload.requireIdempotencyKey=true)'')] \<rparr>,
                     w)
               else
                 (case idempotencyKey of
                    None \<Rightarrow> sendAndRecord h run action s useTemplate content contentHash None None w
                  | Some k \<Rightarrow>
                      (let storePath = resolveIdempotencyStorePath h s;
                           store = readIdempotencyStore w storePath;
                           entryKey = buildIdempotencyEntryKey (st_account s) (mode_name useTemplate) k;
                           existing = (if isRecord (map_of store entryKey) then map_of store entryKey
                                       else None)
                       in case existing of
                            Some ex \<Rightarrow>
                              (let existingHash = readString (obj_get ex ''contentHash'')
                               in if existingHash \<noteq> None \<and> existingHash \<noteq> Some contentHash
                                  then (Done \<lparr> exitCode = 2,
                                               body = envelopeErrorResponse action
                                                 [(''error'', JStr ''idempotency key reuse with different payload content''),
                                                  (''idempotency'',
                                                     JObj [(''key'', JStr k),
                                                           (''storePath'', JStr storePath),
                                                           (''conflict'', JBool True),
                                                           (''existingContentHash'', JStr (the existingHash)),
                                                           (''contentHash'', JStr contentHash)])] \<rparr>,
                                        w)
                                  else (Done \<lparr> exitCode = 0,
                                               body = envelopeOkResponse action
                                                 [(''request'', JObj [(''mode'', JStr (mode_name useTemplate))]),
                                                  (''idempotency'',
                                                     JObj [(''key'', JStr k),
                                                           (''storePath'', JStr storePath),
                                                           (''duplicate'', JBool True),
                                                           (''skippedSend'', JBool True),
                                                           (''entryKey'', JStr entryKey),
                                                           (''existing'', ex)]),
                                                  (''result'',
                                                     JObj [(''exec'',
                                                              JObj [(''code'', JNum 0), (''signal'', JNull),
                                                                    (''killed'', JBool False)])])] \<rparr>,
                                        w))
                          | None \<Rightarrow>
                              sendAndRecord h run action s useTemplate content contentHash (Some k)
                                (Some (storePath, store, entryKey)) w))))"

text \<open>
  The other eleven handlers (\<^verbatim>\<open>list_accounts\<close> to \<^verbatim>\<open>label\<close>) have one shape: they
  either reject the payload with exit code 2, or derive a sub-command from it, run it
  with \<^verbatim>\<open>runHimalaya\<close> and wrap the result by \<^verbatim>\<open>result.ok\<close>, echoing the request.
  How each of them derives the sub-command from the payload is a parameter here (the
  \<open>planner\<close>); the shape is \<open>handleBackend\<close>.
\<close>

datatype plan = Reject string | Invoke "string list" bool "(string \<times> json) list"

type_synonym planner = "string \<Rightarrow> settings \<Rightarrow> plan"

definition handleBackend :: "host \<Rightarrow> runner \<Rightarrow> planner \<Rightarrow> json \<Rightarrow> string \<Rightarrow> world
                             \<Rightarrow> response attempt \<times> world" where
  "handleBackend h run planOf envelope action w =
     (let s = resolveAdapterSettings h envelope
      in case planOf action s of
           Reject msg \<Rightarrow>
             (Done \<lparr> exitCode = 2, body = envelopeErrorResponse action [(''error'', JStr msg)] \<rparr>, w)
         | Invoke args includeAccount request \<Rightarrow>
             (case runHimalaya h run s args includeAccount None w of
                (Raised e, w1) \<Rightarrow> (Raised e, w1)
              | (Done result, w1) \<Rightarrow> (Done (wrap_result action result request), w1)))"

definition mail_supportedActions :: "string list" where
  "mail_supportedActions =
     [''health'', ''list_accounts'', ''list_folders'', ''list_messages'', ''search'',
      ''get_message'', ''draft_reply'', ''send_message'', ''archive'', ''delete_messages'',
      ''purge_folder'', ''mark_read'', ''label'']"

definition dispatch :: "host \<Rightarrow> runner \<Rightarrow> planner \<Rightarrow> json \<Rightarrow> string \<Rightarrow> world
                        \<Rightarrow> response attempt \<times> world" where
  "dispatch h run planOf envelope action w =
     (if action = ''health'' then handleHealth h run envelope action w
      else if action \<in> {''list_accounts'', ''list_folders'', ''list_messages'', ''search'',
                         ''get_message'', ''draft_reply''}
        then handleBackend h run planOf envelope action w
      else if action = ''send_message'' then handleSendMessage h run envelope action w
      else if action \<in> {''archive'', ''delete_messages'', ''purge_folder'', ''mark_read'', ''label''}
        then handleBackend h run planOf envelope action w
      else (Done \<lparr> exitCode = 2,
                   body = envelopeErrorResponse action
                     [(''error'', JStr (''unsupported action '' @ [CHR 0x27] @ action @ [CHR 0x27])),
                      (''supportedActions'',
                         JArr [JStr ''health'', JStr ''list_accounts'', JStr ''list_folders'',
                               JStr ''list_messages'', JStr ''search'', JStr ''get_message'',
                               JStr ''draft_reply'', JStr ''send_message'', JStr ''archive'',
                               JStr ''delete_messages'', JStr ''purge_folder'', JStr ''mark_read'',
                               JStr ''label''])] \<rparr>, w))"

definition mail_failure :: "string \<Rightarrow> json" where
  "mail_failure msg =
     JObj [(''ok'', JBool False), (''domain'', JStr ''mail''), (''adapter'', JStr ''himalaya''),
           (''error'', JStr msg)]"

text \<open>\<^verbatim>\<open>main\<close> together with the \<^verbatim>\<open>main().catch\<close> that ends the script: whatever is
  thrown on the way becomes the crash envelope and exit code 99.\<close>

definition mail_main :: "host \<Rightarrow> runner \<Rightarrow> planner \<Rightarrow> string \<Rightarrow> world \<Rightarrow> proc_result \<times> world" where
  "mail_main h run planOf input w =
     (case readJsonStdin h input of
        Raised e \<Rightarrow> (\<lparr> exit_code = 99, printed = mail_failure (''adapter crash: '' @ error_string e) \<rparr>, w)
      | Done envelope \<Rightarrow>
          if \<not> isRecord (Some envelope)
          then (\<lparr> exit_code = 2, printed = mail_failure ''expected JSON object envelope'' \<rparr>, w)
          else (case readString (obj_get envelope ''action'') of
                  None \<Rightarrow> (\<lparr> exit_code = 2, printed = mail_failure ''envelope.action required'' \<rparr>, w)
                | Some action \<Rightarrow>
                    (case dispatch h run planOf envelope action w of
                       (Raised e, w1) \<Rightarrow>
                         (\<lparr> exit_code = 99, printed = mail_failure (''adapter crash: '' @ error_string e) \<rparr>, w1)
                     | (Done res, w1) \<Rightarrow>
                         (\<lparr> exit_code = exitCode res, printed = body res \<rparr>, w1))))"


section \<open>The notes adapter (mowen-api-adapter.js)\<close>

text \<open>
  \<^verbatim>\<open>Number.parseInt(text, 10)\<close>: leading white space, an optional sign, then the longest
  run of decimal digits; \<open>None\<close> stands for \<^verbatim>\<open>NaN\<close>.  The engine rounds an integer
  above \<open>2^53\<close> to the nearest double, and to \<^verbatim>\<open>Infinity\<close> from \<open>2^1024 - 2^970\<close> on;
  the model keeps the exact integer and \<open>double_finite\<close> tells the two ranges apart.
\<close>

definition is_digit :: "char \<Rightarrow> bool" where
  "is_digit c = (48 \<le> (of_char c :: nat) \<and> (of_char c :: nat) \<le> 57)"

definition digits_val :: "string \<Rightarrow> nat" where
  "digits_val ds = foldl (\<lambda>acc c. 10 * acc + ((of_char c :: nat) - 48)) 0 ds"

definition parseInt10 :: "string \<Rightarrow> int option" where
  "parseInt10 s =
     (let t = dropWhile is_js_space s;
          negative = (t \<noteq> [] \<and> hd t = CHR ''-'');
          rest = (if t \<noteq> [] \<and> (hd t = CHR ''-'' \<or> hd t = CHR ''+'') then tl t else t);
          ds = takeWhile is_digit rest
      in if ds = [] then None
         else Some (if negative then - int (digits_val ds) else int (digits_val ds)))"

definition double_finite :: "int \<Rightarrow> bool" where
  "double_finite n = (\<bar>n\<bar> < 2 ^ 1024 - 2 ^ 970)"

definition readPositiveInt :: "json option \<Rightarrow> int \<Rightarrow> int" where
  "readPositiveInt v fallback =
     (case v of
        Some (JNum x) \<Rightarrow> (if \<lfloor>x\<rfloor> > 0 then \<lfloor>x\<rfloor> else fallback)
      | Some (JStr s) \<Rightarrow>
          (case parseInt10 (js_trim s) of
             Some n \<Rightarrow> (if double_finite n \<and> n > 0 then n else fallback)
           | None \<Rightarrow> fallback)
      | _ \<Rightarrow> fallback)"

fun pick_props :: "(string \<times> json) list \<Rightarrow> string list \<Rightarrow> json option" where
  "pick_props kvs [] = None"
| "pick_props kvs (k # ks) = (case map_of kvs k of Some v \<Rightarrow> Some v | None \<Rightarrow> pick_props kvs ks)"

fun pick :: "json \<Rightarrow> string list \<Rightarrow> json option" where
  "pick (JObj kvs) keys = pick_props kvs keys"
| "pick other keys = None"

definition readStringFromKeys :: "json \<Rightarrow> string list \<Rightarrow> string option" where
  "readStringFromKeys obj keys = readString (pick obj keys)"

definition readIntFromKeys :: "json \<Rightarrow> string list \<Rightarrow> int \<Rightarrow> int" where
  "readIntFromKeys obj keys fallback = readPositiveInt (pick obj keys) fallback"

definition normalizeBaseUrl :: "string option \<Rightarrow> string" where
  "normalizeBaseUrl v =
     (let raw = (case v of Some u \<Rightarrow> u | None \<Rightarrow> ''https://open.mowen.cn'')
      in rev (dropWhile (\<lambda>c. c = CHR ''/'') (rev raw)))"

definition normalizeAction :: "string \<Rightarrow> string" where
  "normalizeAction action =
     (if action = ''create_doc'' then ''create_note''
      else if action = ''update_doc'' then ''edit_note''
      else if action = ''set_doc'' then ''set_note''
      else action)"

definition unsupportedActionMessage :: "string \<Rightarrow> string" where
  "unsupportedActionMessage action =
     (if action = ''append_doc''
      then ''append_doc is not supported by Mowen OpenAPI directly (no read/merge helper in adapter). Use edit_note/update_doc with an explicit NoteAtom body.''
      else if action = ''read_doc'' \<or> action = ''search'' \<or> action = ''list_spaces''
      then action @ '' is not available in the current Mowen OpenAPI docs. Supported actions: create/edit/set note and upload APIs.''
      else ''unsupported action: '' @ action)"

record mowen_settings =
  ms_apiKey :: "string option"
  ms_baseUrl :: string
  ms_timeoutMs :: int
  ms_minIntervalMs :: int
  ms_stateDir :: string
  ms_userAgent :: string
  ms_payload :: json

definition env_json :: "host \<Rightarrow> string \<Rightarrow> json option" where
  "env_json h name = map_option JStr (environ h name)"

definition resolveSettings :: "host \<Rightarrow> json \<Rightarrow> mowen_settings" where
  "resolveSettings h envelope =
     (let payload = (if isRecord (obj_get envelope ''payload'')
                     then the (obj_get envelope ''payload'') else JObj []);
          envTimeoutMs = readPositiveInt (env_json h ''MYOPS_MOWEN_TIMEOUT_MS'') 30000;
          envMinIntervalMs = readPositiveInt (env_json h ''MYOPS_MOWEN_MIN_INTERVAL_MS'') 1100
      in \<lparr> ms_apiKey = orElse (readStringFromKeys payload [''apiKey'', ''api_key''])
                              (env_string h ''MYOPS_MOWEN_API_KEY''),
           ms_baseUrl = normalizeBaseUrl
                          (orElse (readStringFromKeys payload [''baseUrl'', ''base_url''])
                                  (env_string h ''MYOPS_MOWEN_BASE_URL'')),
           ms_timeoutMs = readIntFromKeys payload [''timeoutMs'', ''timeout_ms''] envTimeoutMs,
           ms_minIntervalMs = readIntFromKeys payload [''minIntervalMs'', ''min_interval_ms'']
                                envMinIntervalMs,
           ms_stateDir = (case orElse (readStringFromKeys payload [''stateDir'', ''state_dir''])
                                      (env_string h ''MYOPS_MOWEN_STATE_DIR'') of
                            Some d \<Rightarrow> d | None \<Rightarrow> default_state_dir h),
           ms_userAgent = (case env_string h ''MYOPS_MOWEN_USER_AGENT'' of
                             Some u \<Rightarrow> u | None \<Rightarrow> ''my-ops-mowen-adapter/1''),
           ms_payload = payload \<rparr>)"

definition sanitizeForHealth :: "mowen_settings \<Rightarrow> json" where
  "sanitizeForHealth s =
     JObj [(''ok'', JBool (ms_apiKey s \<noteq> None)),
           (''domain'', JStr ''mowen''),
           (''action'', JStr ''health''),
           (''adapter'', JStr ''mowen-openapi''),
           (''configured'', JObj [(''apiKey'', JBool (ms_apiKey s \<noteq> None)),
                                  (''baseUrl'', JBool (ms_baseUrl s \<noteq> []))]),
           (''baseUrl'', JStr (ms_baseUrl s)),
           (''timeoutMs'', JNum (of_int (ms_timeoutMs s))),
           (''rateLimit'', JObj [(''minIntervalMs'', JNum (of_int (ms_minIntervalMs s))),
                                 (''stateDir'', JStr (ms_stateDir s))]),
           (''note'', JStr (if ms_apiKey s \<noteq> None
                            then ''Mowen adapter is configured. Health is local-only to avoid consuming API quotas.''
                            else ''Set MYOPS_MOWEN_API_KEY (or payload.apiKey) to enable Mowen API calls.''))]"

text \<open>
  What the notes adapter can change or reach: the rate-limit document among the files,
  the HTTP requests it sends (URL and JSON body, in order) and the clock.  Time passes
  only while the process sleeps, and a sleep lasts as long as it was asked to.
\<close>

record mworld =
  mw_files :: "string \<Rightarrow> json option"
  mw_requests :: "(string \<times> json) list"
  mw_clock :: int

definition applyRateLimit :: "host \<Rightarrow> mowen_settings \<Rightarrow> string \<Rightarrow> mworld \<Rightarrow> json \<times> mworld" where
  "applyRateLimit h s key w =
     (let minIntervalMs = readPositiveInt (Some (JNum (of_int (ms_minIntervalMs s)))) 1100
      in if minIntervalMs \<le> 0
         then (JObj [(''key'', JStr key), (''minIntervalMs'', JNum 0), (''sleptMs'', JNum 0),
                     (''stateDir'', JStr (ms_stateDir s))], w)
         else
           (let stateDir = (if ms_stateDir s \<noteq> [] then ms_stateDir s else default_state_dir h);
                stateFile = path_join h stateDir ''rate-limit.json'';
                now = mw_clock w;
                lastByKey = (case mw_files w stateFile of
                               Some (JObj props) \<Rightarrow>
                                 (case map_of props ''lastByKey'' of
                                    Some (JObj l) \<Rightarrow> l
                                  | _ \<Rightarrow> [])
                             | _ \<Rightarrow> []);
                lastTs = (case map_of lastByKey key of Some (JNum t) \<Rightarrow> t | _ \<Rightarrow> 0);
                waitMs = max 0 (of_int minIntervalMs - (of_int now - lastTs));
                woke = now + \<lceil>waitMs\<rceil>
            in (JObj [(''key'', JStr key), (''minIntervalMs'', JNum (of_int minIntervalMs)),
                      (''sleptMs'', JNum waitMs), (''stateDir'', JStr stateDir)],
                w\<lparr> mw_clock := woke,
                   mw_files := (mw_files w)(stateFile \<mapsto>
                       JObj [(''lastByKey'', JObj (assoc_set key (JNum (of_int woke)) lastByKey))]) \<rparr>)))"

text \<open>\<^verbatim>\<open>fetch\<close> either fails (by a time-out or otherwise) or brings a response.\<close>

record http_response =
  hr_ok :: bool
  hr_status :: int
  hr_statusText :: string
  hr_text :: string

datatype http_outcome = FetchFailed bool string | Fetched http_response

type_synonym fetcher = "string \<Rightarrow> json \<Rightarrow> http_outcome"

fun nested_note_id :: "json \<Rightarrow> string list \<Rightarrow> string option" where
  "nested_note_id v [] = None"
| "nested_note_id v (key # keys) =
     (case obj_get v key of
        Some (JObj nested) \<Rightarrow>
          (case readStringFromKeys (JObj nested) [''noteId'', ''note_id'', ''id''] of
             Some nestedId \<Rightarrow> Some nestedId
           | None \<Rightarrow>
               (case (if isRecord (map_of nested ''note'')
                      then readStringFromKeys (the (map_of nested ''note'')) [''noteId'', ''note_id'', ''id'']
                      else None) of
                  Some deepId \<Rightarrow> Some deepId
                | None \<Rightarrow> nested_note_id v keys))
      | _ \<Rightarrow> nested_note_id v keys)"

definition extractNoteIdFromResponseJson :: "json option \<Rightarrow> string option" where
  "extractNoteIdFromResponseJson value =
     (case value of
        Some (JObj kvs) \<Rightarrow>
          (case readStringFromKeys (JObj kvs) [''noteId'', ''note_id'', ''id''] of
             Some direct \<Rightarrow> Some direct
           | None \<Rightarrow> nested_note_id (JObj kvs) [''data'', ''result'', ''note''])
      | _ \<Rightarrow> None)"

text \<open>
  The five request builders (\<^verbatim>\<open>buildCreateNoteRequest\<close> and its siblings) turn the
  payload into the request body or throw; they are a parameter here.
  \<^verbatim>\<open>resolveEndpointAndRequest\<close> calls the builder while it constructs its result, so
  a throwing builder makes \<^verbatim>\<open>resolveEndpointAndRequest\<close> itself throw.
\<close>

type_synonym request_builder = "string \<Rightarrow> json \<Rightarrow> json attempt"

definition resolveEndpointAndRequest ::
  "request_builder \<Rightarrow> string \<Rightarrow> json \<Rightarrow> (string \<times> json \<times> string) option attempt" where
  "resolveEndpointAndRequest build mappedAction payload =
     (let resolved = (\<lambda>endpointPath rateLimitKey.
            case build mappedAction payload of
              Raised e \<Rightarrow> Raised e
            | Done requestBody \<Rightarrow> Done (Some (endpointPath, requestBody, rateLimitKey)))
      in if mappedAction = ''create_note'' then resolved ''/api/open/api/v1/note/create'' ''note.write''
         else if mappedAction = ''edit_note'' then resolved ''/api/open/api/v1/note/edit'' ''note.write''
         else if mappedAction = ''set_note'' then resolved ''/api/open/api/v1/note/set'' ''note.write''
         else if mappedAction = ''upload_prepare'' then resolved ''/api/open/api/v1/upload/prepare'' ''upload.write''
         else if mappedAction = ''upload_url'' then resolved ''/api/open/api/v1/upload/url'' ''upload.write''
         else Done None)"

text \<open>The actions that \<^verbatim>\<open>main\<close> serves: \<^verbatim>\<open>health\<close>, the three aliases that
  \<^verbatim>\<open>normalizeAction\<close> maps, and the five actions that have an endpoint.\<close>

definition mowen_supportedActions :: "string list" where
  "mowen_supportedActions =
     [''health'', ''create_doc'', ''update_doc'', ''set_doc'', ''create_note'', ''edit_note'',
      ''set_note'', ''upload_prepare'', ''upload_url'']"

definition mowen_rejection :: "string \<Rightarrow> string \<Rightarrow> string \<Rightarrow> json" where
  "mowen_rejection action mappedAction msg =
     JObj [(''ok'', JBool False), (''domain'', JStr ''mowen''), (''action'', JStr action),
           (''mappedAction'', JStr mappedAction), (''adapter'', JStr ''mowen-openapi''),
           (''error'', JStr msg)]"

text \<open>\<^verbatim>\<open>callMowenApi\<close> followed by \<^verbatim>\<open>buildApiResult\<close> and the exit.  The summary of the
  request, the response headers and the durations are left out of the result.\<close>

definition callAndReport ::
  "host \<Rightarrow> fetcher \<Rightarrow> mowen_settings \<Rightarrow> string \<Rightarrow> string \<Rightarrow> string \<Rightarrow> json \<Rightarrow> json \<Rightarrow> mworld
   \<Rightarrow> proc_result \<times> mworld" where
  "callAndReport h fetch s action mappedAction endpointPath requestBody rateLimit w =
     (let url = ms_baseUrl s @ endpointPath;
          w1 = w\<lparr> mw_requests := mw_requests w @ [(url, requestBody)] \<rparr>;
          api = [(''method'', JStr ''POST''), (''path'', JStr endpointPath),
                 (''baseUrl'', JStr (ms_baseUrl s))]
      in case fetch url requestBody of
           FetchFailed timeout msg \<Rightarrow>
             (\<lparr> exit_code = 2,
                printed = JObj [(''ok'', JBool False), (''domain'', JStr ''mowen''),
                                (''adapter'', JStr ''mowen-openapi''),
                                (''api'', JObj (api @ [(''timeoutMs'', JNum (of_int (ms_timeoutMs s)))])),
                                (''error'', JStr (if timeout then ''request timed out''
                                                  else ''request failed: '' @ msg))] \<rparr>, w1)
         | Fetched r \<Rightarrow>
             (let trimmed = js_trim (hr_text r);
                  json = (if trimmed \<noteq> [] then json_parse h trimmed else None);
                  noteId = extractNoteIdFromResponseJson json
              in (\<lparr> exit_code = (if hr_ok r then 0 else 2),
                    printed = JObj (defined_props
                      [(''ok'', Some (JBool (hr_ok r))),
                       (''domain'', Some (JStr ''mowen'')),
                       (''action'', Some (JStr action)),
                       (''mappedAction'', Some (JStr mappedAction)),
                       (''adapter'', Some (JStr ''mowen-openapi'')),
                       (''noteId'', map_option JStr noteId),
                       (''api'', Some (JObj (api @ [(''status'', JNum (of_int (hr_status r))),
                                                    (''statusText'', JStr (hr_statusText r)),
                                                    (''timeoutMs'', JNum (of_int (ms_timeoutMs s)))]))),
                       (''rateLimit'', Some rateLimit),
                       (''response'', Some (JObj (defined_props
                          [(''json'', json),
                           (''text'', (if json = None then Some (JStr (hr_text r)) else None))])))]) \<rparr>,
                  w1)))"

definition mowen_crash :: "js_error \<Rightarrow> json" where
  "mowen_crash e =
     JObj [(''ok'', JBool False), (''adapter'', JStr ''mowen-openapi''), (''domain'', JStr ''mowen''),
           (''error'', JStr (''adapter crashed: '' @ error_string e))]"

text \<open>\<^verbatim>\<open>main\<close> with the \<^verbatim>\<open>main().catch\<close> of the script.  \<^verbatim>\<open>writeAndExit\<close> ends the
  process, so each of its calls is a result here.\<close>

definition mowen_main :: "host \<Rightarrow> fetcher \<Rightarrow> request_builder \<Rightarrow> string \<Rightarrow> mworld \<Rightarrow> proc_result \<times> mworld" where
  "mowen_main h fetch build input w =
     (case readJsonStdin h input of
        Raised e \<Rightarrow> (\<lparr> exit_code = 2, printed = mowen_crash e \<rparr>, w)
      | Done envelope \<Rightarrow>
          if \<not> isRecord (Some envelope)
          then (\<lparr> exit_code = 2,
                  printed = JObj [(''ok'', JBool False), (''error'', JStr ''envelope must be an object'')] \<rparr>, w)
          else (case readString (obj_get envelope ''action'') of
             None \<Rightarrow>
               (\<lparr> exit_code = 2,
                  printed = JObj [(''ok'', JBool False), (''error'', JStr ''envelope.action is required'')] \<rparr>, w)
           | Some action \<Rightarrow>
               (let domain = readString (obj_get envelope ''domain'')
                in if domain \<noteq> None \<and> domain \<noteq> Some ''mowen''
                   then (\<lparr> exit_code = 2,
                           printed = JObj [(''ok'', JBool False),
                                           (''error'', JStr (''unexpected domain '' @ [CHR 0x27] @ the domain
                                                             @ [CHR 0x27] @ '', expected ''
                                                             @ [CHR 0x27] @ ''mowen'' @ [CHR 0x27]))] \<rparr>, w)
                   else
                     (let s = resolveSettings h envelope;
                          payload = ms_payload s;
                          mappedAction = normalizeAction action
                      in if mappedAction = ''health''
                         then (\<lparr> exit_code = 0, printed = sanitizeForHealth s \<rparr>, w)
                         else if mappedAction = ''append_doc'' \<or> mappedAction = ''read_doc''
                                 \<or> mappedAction = ''search'' \<or> mappedAction = ''list_spaces''
                         then (\<lparr> exit_code = 2,
                                 printed = mowen_rejection action mappedAction
                                             (unsupportedActionMessage mappedAction) \<rparr>, w)
                         else if ms_apiKey s = None
                         then (\<lparr> exit_code = 2,
                                 printed = mowen_rejection action mappedAction
                                             ''Missing API key. Set MYOPS_MOWEN_API_KEY or payload.apiKey'' \<rparr>, w)
                         else (case resolveEndpointAndRequest build mappedAction payload of
                                 Raised e \<Rightarrow> (\<lparr> exit_code = 2, printed = mowen_crash e \<rparr>, w)
                               | Done None \<Rightarrow>
                                   (\<lparr> exit_code = 2,
                                      printed = mowen_rejection action mappedAction
                                                  (unsupportedActionMessage mappedAction) \<rparr>, w)
                               | Done (Some (endpointPath, requestBody, rateLimitKey)) \<Rightarrow>
                                   (case applyRateLimit h s rateLimitKey w of
                                      (rateLimit, w1) \<Rightarrow>
                                        callAndReport h fetch s action mappedAction endpointPath
                                          requestBody rateLimit w1))))))"


section \<open>The calendar adapter: the process\<close>

text \<open>
  The process hands the request \<^verbatim>\<open>{action, payload, config}\<close> to a script that
  \<^verbatim>\<open>osascript\<close> runs against the Calendar application, and reads the script's output.
  What \<^verbatim>\<open>osascript\<close> does with a request is the \<open>jxa_runner\<close>; the second component
  of the results below lists the requests that were handed over.
\<close>

type_synonym jxa_runner = "string \<Rightarrow> json \<Rightarrow> run_outcome"

record calendar_settings =
  cs_osascriptBin :: string
  cs_timeoutMs :: int
  cs_defaultCalendar :: "string option"
  cs_payload :: json

definition resolveAdapterSettings_calendar :: "host \<Rightarrow> json \<Rightarrow> calendar_settings" where
  "resolveAdapterSettings_calendar h envelope =
     (let payload = (if isRecord (obj_get envelope ''payload'')
                     then the (obj_get envelope ''payload'') else JObj []);
          envOsa = (case env_string h ''MYOPS_CALENDAR_OSASCRIPT_BIN'' of
                      Some b \<Rightarrow> b | None \<Rightarrow> ''/usr/bin/osascript'');
          envTimeoutMs = readPositiveInt (env_json h ''MYOPS_CALENDAR_TIMEOUT_MS'') 20000
      in \<lparr> cs_osascriptBin = (case readString (obj_get payload ''osascriptBin'') of
                                 Some b \<Rightarrow> b | None \<Rightarrow> envOsa),
           cs_timeoutMs = readPositiveInt (obj_get payload ''timeoutMs'') envTimeoutMs,
           cs_defaultCalendar = orElse (readString (obj_get payload ''defaultCalendar''))
                                       (env_string h ''MYOPS_CALENDAR_DEFAULT_CALENDAR''),
           cs_payload = payload \<rparr>)"

definition parseJsonOrUndefined :: "host \<Rightarrow> string \<Rightarrow> json option" where
  "parseJsonOrUndefined h text =
     (let trimmed = js_trim text in if trimmed = [] then None else json_parse h trimmed)"

definition envelopeOkResponse_calendar :: "string \<Rightarrow> (string \<times> json) list \<Rightarrow> json" where
  "envelopeOkResponse_calendar action extra =
     JObj (spread [(''ok'', JBool True), (''domain'', JStr ''calendar''), (''action'', JStr action),
                   (''adapter'', JStr ''macos-calendar-jxa'')] extra)"

definition envelopeErrorResponse_calendar :: "string \<Rightarrow> (string \<times> json) list \<Rightarrow> json" where
  "envelopeErrorResponse_calendar action extra =
     JObj (spread [(''ok'', JBool False), (''domain'', JStr ''calendar''), (''action'', JStr action),
                   (''adapter'', JStr ''macos-calendar-jxa'')] extra)"

definition dispatch_calendar :: "host \<Rightarrow> jxa_runner \<Rightarrow> json \<Rightarrow> string \<Rightarrow> response \<times> json list" where
  "dispatch_calendar h jxa envelope action =
     (let s = resolveAdapterSettings_calendar h envelope;
          payload = cs_payload s
      in if action \<in> {''list_events'', ''search'', ''create_event'', ''update_event'',
                        ''delete_event'', ''get_event''} \<and> \<not> isRecord (Some payload)
         then (\<lparr> exitCode = 2,
                 body = envelopeErrorResponse_calendar action
                          [(''error'', JStr ''payload must be an object'')] \<rparr>, [])
         else
           (let req = JObj (defined_props
                        [(''action'', obj_get envelope ''action''),
                         (''payload'', Some payload),
                         (''config'', Some (JObj (defined_props
                            [(''defaultCalendar'', map_option JStr (cs_defaultCalendar s))])))]);
                outcome = jxa (cs_osascriptBin s) req;
                transportError = (case outcome of SpawnError msg \<Rightarrow> True | Closed r \<Rightarrow> False);
                exec = (case outcome of
                          SpawnError msg \<Rightarrow>
                            \<lparr> ex_code = None, ex_signal = None, ex_killed = False,
                              ex_stdout = [], ex_stderr = error_string (JsError ''Error'' msg) \<rparr>
                        | Closed r \<Rightarrow> r);
                parsed = parseJsonOrUndefined h (ex_stdout exec);
                jxaOk = (isRecord parsed \<and> opt_get parsed ''ok'' = Some (JBool True));
                ok = (\<not> transportError \<and> ex_code exec = Some 0 \<and> jxaOk)
            in (\<lparr> exitCode = (if ok then 0 else 3),
                  body = (if ok then envelopeOkResponse_calendar else envelopeErrorResponse_calendar) action
                    (defined_props
                       [(''data'', (if isRecord parsed \<and> isRecord (opt_get parsed ''data'')
                                    then opt_get parsed ''data'' else None)),
                        (''error'', (case opt_get parsed ''error'' of
                                       Some (JStr m) \<Rightarrow> (if isRecord parsed then Some (JStr m) else None)
                                     | _ \<Rightarrow> None)),
                        (''result'', Some (JObj (defined_props
                           [(''exec'', Some (exec_json exec)),
                            (''stdoutJson'', parsed),
                            (''stderr'', (if ex_stderr exec = [] then None else Some (JStr (ex_stderr exec)))),
                            (''stdoutRaw'', (if parsed = None then Some (JStr (ex_stdout exec)) else None))])))]) \<rparr>,
                [req])))"

definition calendar_supportedActions :: "string list" where
  "calendar_supportedActions =
     [''health'', ''list_calendars'', ''list_events'', ''search'', ''get_event'',
      ''create_event'', ''update_event'', ''delete_event'']"

definition calendar_failure :: "string \<Rightarrow> json" where
  "calendar_failure msg =
     JObj [(''ok'', JBool False), (''domain'', JStr ''calendar''),
           (''adapter'', JStr ''macos-calendar-jxa''), (''error'', JStr msg)]"

text \<open>\<^verbatim>\<open>main\<close> with the \<^verbatim>\<open>main().catch\<close> of the script, which exits with code 1.\<close>

definition calendar_main :: "host \<Rightarrow> jxa_runner \<Rightarrow> string \<Rightarrow> proc_result \<times> json list" where
  "calendar_main h jxa input =
     (case readJsonStdin h input of
        Raised e \<Rightarrow> (\<lparr> exit_code = 1, printed = calendar_failure (error_message e) \<rparr>, [])
      | Done envelope \<Rightarrow>
          if \<not> isRecord (Some envelope)
          then (\<lparr> exit_code = 2, printed = calendar_failure ''expected JSON object envelope'' \<rparr>, [])
          else (case readString (obj_get envelope ''action'') of
                  None \<Rightarrow> (\<lparr> exit_code = 2, printed = calendar_failure ''envelope.action required'' \<rparr>, [])
                | Some action \<Rightarrow>
                    if action \<notin> set calendar_supportedActions
                    then (\<lparr> exit_code = 2,
                            printed = JObj [(''ok'', JBool False), (''domain'', JStr ''calendar''),
                                            (''adapter'', JStr ''macos-calendar-jxa''),
                                            (''action'', JStr action),
                                            (''error'', JStr (''unsupported action '' @ [CHR 0x27] @ action
                                                              @ [CHR 0x27])),
                                            (''supportedActions'',
                                               JArr (map JStr calendar_supportedActions))] \<rparr>, [])
                    else (case dispatch_calendar h jxa envelope action of
                            (res, reqs) \<Rightarrow> (\<lparr> exit_code = exitCode res, printed = body res \<rparr>, reqs))))"


section \<open>The calendar adapter: the script run against the Calendar application\<close>

text \<open>
  A \<^verbatim>\<open>Date\<close> is its time value, an integer number of milliseconds since the epoch;
  \<open>None\<close> of \<open>int option\<close> is the invalid date.  An ISO string made by
  \<^verbatim>\<open>toISOString\<close> and read back by \<^verbatim>\<open>new Date\<close> is represented by the time value
  it denotes.  What the engine alone knows is gathered in \<open>js_engine\<close>: the current
  time, the parsing of date texts (\<^verbatim>\<open>new Date(s)\<close>), local midnight of a calendar day
  (\<^verbatim>\<open>new Date(y, mo - 1, da, 0, 0, 0, 0)\<close>, given the numbers as they are written), the
  offset of local time from UTC (the \<^verbatim>\<open>LocalTZA(t, isUTC)\<close> of ECMA-262),
  \<^verbatim>\<open>toLowerCase\<close> and \<^verbatim>\<open>localeCompare\<close>.
\<close>

record js_engine =
  now_ms :: int
  date_parse :: "string \<Rightarrow> int option"
  local_midnight :: "nat \<Rightarrow> nat \<Rightarrow> nat \<Rightarrow> int option"
  local_tza :: "int \<Rightarrow> bool \<Rightarrow> int"
  to_lower :: "string \<Rightarrow> string"
  locale_compare :: "string \<Rightarrow> string \<Rightarrow> int"

definition msPerHour :: int where "msPerHour = 3600000"
definition msPerDay :: int where "msPerDay = 86400000"

definition TimeClip :: "int \<Rightarrow> int option" where
  "TimeClip t = (if \<bar>t\<bar> > 8640000000000000 then None else Some t)"

definition LocalTime :: "js_engine \<Rightarrow> int \<Rightarrow> int" where
  "LocalTime e t = t + local_tza e t True"

definition UTC :: "js_engine \<Rightarrow> int \<Rightarrow> int" where
  "UTC e t = t - local_tza e t False"

definition Day :: "int \<Rightarrow> int" where "Day t = t div msPerDay"
definition HourFromTime :: "int \<Rightarrow> int" where "HourFromTime t = (t div msPerHour) mod 24"
definition MinFromTime :: "int \<Rightarrow> int" where "MinFromTime t = (t div 60000) mod 60"
definition SecFromTime :: "int \<Rightarrow> int" where "SecFromTime t = (t div 1000) mod 60"
definition msFromTime :: "int \<Rightarrow> int" where "msFromTime t = t mod 1000"

definition MakeTime :: "int \<Rightarrow> int \<Rightarrow> int \<Rightarrow> int \<Rightarrow> int" where
  "MakeTime hour minute sec ms = hour * msPerHour + minute * 60000 + sec * 1000 + ms"

definition MakeDate :: "int \<Rightarrow> int \<Rightarrow> int" where
  "MakeDate day time = day * msPerDay + time"

definition getHours :: "js_engine \<Rightarrow> int \<Rightarrow> int" where
  "getHours e t = HourFromTime (LocalTime e t)"

text \<open>\<^verbatim>\<open>Date.prototype.setHours(hour)\<close> on a valid date, as ECMA-262 defines it.\<close>

definition setHours :: "js_engine \<Rightarrow> int \<Rightarrow> int \<Rightarrow> int option" where
  "setHours e t hour =
     (let lt = LocalTime e t;
          date = MakeDate (Day lt) (MakeTime hour (MinFromTime lt) (SecFromTime lt) (msFromTime lt))
      in TimeClip (UTC e date))"

text \<open>\<^verbatim>\<open>new Date(number)\<close>: the number is cut towards zero unless it is out of range.\<close>

definition date_of_number :: "rat \<Rightarrow> int option" where
  "date_of_number v =
     (if \<bar>v\<bar> > 8640000000000000 then None
      else Some (if v \<ge> 0 then \<lfloor>v\<rfloor> else \<lceil>v\<rceil>))"

text \<open>The pattern \<^verbatim>\<open>/^(\d{4})-(\d{2})-(\d{2})$/\<close>.\<close>

definition is_ymd :: "string \<Rightarrow> bool" where
  "is_ymd s =
     (length s = 10 \<and> list_all is_digit (take 4 s) \<and> s ! 4 = CHR ''-''
      \<and> list_all is_digit (take 2 (drop 5 s)) \<and> s ! 7 = CHR ''-''
      \<and> list_all is_digit (drop 8 s))"

definition parseDateInput :: "js_engine \<Rightarrow> json option \<Rightarrow> string \<Rightarrow> int attempt" where
  "parseDateInput e v fieldName =
     (case v of
        Some (JNum x) \<Rightarrow>
          (case date_of_number x of
             None \<Rightarrow> Raised (JsError ''Error'' (''invalid timestamp for '' @ fieldName))
           | Some t \<Rightarrow> Done t)
      | Some (JStr str) \<Rightarrow>
          (let s = js_trim str
           in if s = [] then Raised (JsError ''Error'' (fieldName @ '' is empty''))
              else if is_ymd s
              then (case local_midnight e (digits_val (take 4 s)) (digits_val (take 2 (drop 5 s)))
                                          (digits_val (drop 8 s)) of
                      None \<Rightarrow> Raised (JsError ''Error'' (''invalid date for '' @ fieldName))
                    | Some t \<Rightarrow> Done t)
              else (case date_parse e s of
                      None \<Rightarrow> Raised (JsError ''Error'' (''invalid date for '' @ fieldName @ '': '' @ s))
                    | Some t \<Rightarrow> Done t))
      | _ \<Rightarrow> Raised (JsError ''Error'' (fieldName @ '' must be a date string'')))"

record date_range =
  range_start :: int
  range_end :: int

definition normalizeDateRange :: "js_engine \<Rightarrow> json \<Rightarrow> date_range attempt" where
  "normalizeDateRange e payload =
     (case (if truthy (obj_get payload ''start'')
            then parseDateInput e (obj_get payload ''start'') ''payload.start''
            else Done (now_ms e)) of
        Raised err \<Rightarrow> Raised err
      | Done start \<Rightarrow>
          (case (if truthy (obj_get payload ''end'')
                 then (case parseDateInput e (obj_get payload ''end'') ''payload.end'' of
                         Raised err \<Rightarrow> Raised err
                       | Done t \<Rightarrow> Done (Some t))
                 else Done (TimeClip (start + 7 * 24 * 60 * 60 * 1000))) of
             Raised err \<Rightarrow> Raised err
           | Done end \<Rightarrow>
               (if (case end of Some t \<Rightarrow> t > start | None \<Rightarrow> False)
                then Done \<lparr> range_start = start, range_end = the end \<rparr>
                else Raised (JsError ''Error'' ''payload.end must be later than payload.start''))))"

definition clampPositiveInt :: "json option \<Rightarrow> int \<Rightarrow> int \<Rightarrow> int" where
  "clampPositiveInt v fallback mx =
     (let n = (case v of
                 Some (JNum x) \<Rightarrow> Some \<lfloor>x\<rfloor>
               | Some (JStr s) \<Rightarrow>
                   (if js_trim s \<noteq> []
                    then (case parseInt10 (js_trim s) of
                            Some k \<Rightarrow> (if double_finite k then Some k else None)
                          | None \<Rightarrow> None)
                    else Some fallback)
               | _ \<Rightarrow> Some fallback);
          n1 = (case n of Some k \<Rightarrow> (if k \<le> 0 then fallback else k) | None \<Rightarrow> fallback)
      in if n1 > mx then mx else n1)"

text \<open>
  The Calendar application: calendars with their events.  An event's dates are \<open>None\<close>
  when the application gives none or an invalid one.  \<open>cal_whose_fails\<close> says that
  building the filtered collection \<^verbatim>\<open>cal.events.whose(...)\<close> throws, in which case the
  script falls back to all events of the calendar.  Of an event, the model keeps the
  properties that the listing reads.
\<close>

record cal_event =
  ev_uid :: "string option"
  ev_id :: "string option"
  ev_summary :: "string option"
  ev_startDate :: "int option"
  ev_endDate :: "int option"
  ev_allday :: bool
  ev_location :: "string option"
  ev_description :: "string option"

record calendar =
  cal_name :: "string option"
  cal_writable :: bool
  cal_events :: "cal_event list"
  cal_whose_fails :: bool

record event_row =
  row_id :: "string option"
  row_calendar :: "string option"
  row_title :: "string option"
  row_start :: "int option"
  row_end :: "int option"
  row_allDay :: bool
  row_location :: "string option"
  row_notes :: "string option"

definition nonempty :: "string option \<Rightarrow> string option" where
  "nonempty v = (case v of Some s \<Rightarrow> (if s = [] then None else Some s) | None \<Rightarrow> None)"

definition eventToJson :: "cal_event \<Rightarrow> string option \<Rightarrow> event_row" where
  "eventToJson ev calendarName =
     (let uid = orElse (nonempty (ev_uid ev)) (ev_id ev)
      in \<lparr> row_id = nonempty uid,
           row_calendar = nonempty calendarName,
           row_title = ev_summary ev,
           row_start = ev_startDate ev,
           row_end = ev_endDate ev,
           row_allDay = ev_allday ev,
           row_location = ev_location ev,
           row_notes = ev_description ev \<rparr>)"

text \<open>\<^verbatim>\<open>Calendar.calendars.whose({ name: n })\<close>: the calendars of that name.\<close>

definition calendars_named :: "calendar list \<Rightarrow> string \<Rightarrow> calendar list" where
  "calendars_named cals n = filter (\<lambda>c. cal_name c = Some n) cals"

definition trimmed_name :: "json \<Rightarrow> string list" where
  "trimmed_name v = (case v of JStr s \<Rightarrow> (if js_trim s \<noteq> [] then [js_trim s] else []) | _ \<Rightarrow> [])"

definition selectCalendars :: "calendar list \<Rightarrow> json \<Rightarrow> calendar list" where
  "selectCalendars cals payload =
     (let names = (case obj_get payload ''calendar'' of Some v \<Rightarrow> trimmed_name v | None \<Rightarrow> [])
                  @ (case obj_get payload ''calendars'' of
                       Some (JArr vs) \<Rightarrow> concat (map trimmed_name vs)
                     | _ \<Rightarrow> []);
          uniqueNames = remdups (rev names)
      in if names = [] then cals
         else concat (map (calendars_named cals) (rev uniqueNames)))"

text \<open>The collection that \<^verbatim>\<open>cal.events.whose({startDate: {_lessThan: range.end},
  endDate: {_greaterThan: range.start}})\<close> stands for, or all events when it throws.\<close>

definition events_whose :: "calendar \<Rightarrow> date_range \<Rightarrow> cal_event list" where
  "events_whose cal rng =
     (if cal_whose_fails cal then cal_events cal
      else filter (\<lambda>ev. (case ev_startDate ev of Some t \<Rightarrow> t < range_end rng | None \<Rightarrow> False)
                       \<and> (case ev_endDate ev of Some t \<Rightarrow> t > range_start rng | None \<Rightarrow> False))
                  (cal_events cal))"

fun contains :: "string \<Rightarrow> string \<Rightarrow> bool" where
  "contains q [] = (q = [])"
| "contains q (c # cs) = (take (length q) (c # cs) = q \<or> contains q cs)"

fun join_lines :: "string list \<Rightarrow> string" where
  "join_lines [] = []"
| "join_lines [x] = x"
| "join_lines (x # y # ys) = x @ [CHR 0x0A] @ join_lines (y # ys)"

definition truthy_strings :: "string option list \<Rightarrow> string list" where
  "truthy_strings vs = concat (map (\<lambda>v. case nonempty v of Some s \<Rightarrow> [s] | None \<Rightarrow> []) vs)"

text \<open>The tests that the loop of \<^verbatim>\<open>listEvents\<close> applies to a row before it pushes it.\<close>

definition overlaps :: "date_range \<Rightarrow> event_row \<Rightarrow> bool" where
  "overlaps rng row =
     (case (row_start row, row_end row) of
        (Some startMs, Some endMs) \<Rightarrow> startMs < range_end rng \<and> endMs > range_start rng
      | _ \<Rightarrow> False)"

definition matches_query :: "js_engine \<Rightarrow> string \<Rightarrow> bool \<Rightarrow> event_row \<Rightarrow> bool" where
  "matches_query e query includeNotes row =
     (query = [] \<or>
      contains query
        (to_lower e (join_lines (truthy_strings
           [row_title row, row_location row, (if includeNotes then row_notes row else None)]))))"

definition keeps_row :: "js_engine \<Rightarrow> date_range \<Rightarrow> string \<Rightarrow> bool \<Rightarrow> event_row \<Rightarrow> bool" where
  "keeps_row e rng query includeNotes row =
     (row_id row \<noteq> None \<and> overlaps rng row \<and> matches_query e query includeNotes row)"

definition calendar_rows :: "js_engine \<Rightarrow> date_range \<Rightarrow> string \<Rightarrow> bool \<Rightarrow> calendar \<Rightarrow> event_row list" where
  "calendar_rows e rng query includeNotes cal =
     map (\<lambda>row. if includeNotes then row else row\<lparr> row_notes := None \<rparr>)
       (filter (keeps_row e rng query includeNotes)
          (map (\<lambda>ev. eventToJson ev (cal_name cal)) (events_whose cal rng)))"

text \<open>\<^verbatim>\<open>items.sort(compare)\<close>, modelled as a stable insertion sort by the comparison.\<close>

definition row_before :: "js_engine \<Rightarrow> event_row \<Rightarrow> event_row \<Rightarrow> bool" where
  "row_before e a b =
     (let as = (case row_start a of Some t \<Rightarrow> t | None \<Rightarrow> 0);
          bs = (case row_start b of Some t \<Rightarrow> t | None \<Rightarrow> 0)
      in if as \<noteq> bs then as - bs \<le> 0
         else locale_compare e (case row_title a of Some t \<Rightarrow> t | None \<Rightarrow> [])
                               (case row_title b of Some t \<Rightarrow> t | None \<Rightarrow> []) \<le> 0)"

fun insert_by :: "('a \<Rightarrow> 'a \<Rightarrow> bool) \<Rightarrow> 'a \<Rightarrow> 'a list \<Rightarrow> 'a list" where
  "insert_by le x [] = [x]"
| "insert_by le x (y # ys) = (if le x y then x # y # ys else y # insert_by le x ys)"

definition sort_by :: "('a \<Rightarrow> 'a \<Rightarrow> bool) \<Rightarrow> 'a list \<Rightarrow> 'a list" where
  "sort_by le xs = foldr (insert_by le) xs []"

record listing =
  items :: "event_row list"
  count :: nat
  listed_range :: date_range
  listed_action :: string

definition listEvents :: "js_engine \<Rightarrow> calendar list \<Rightarrow> json \<Rightarrow> string \<Rightarrow> listing attempt" where
  "listEvents e cals payload action =
     (case normalizeDateRange e payload of
        Raised err \<Rightarrow> Raised err
      | Done rng \<Rightarrow>
          (let limit = clampPositiveInt (obj_get payload ''limit'') 50 500;
               includeNotes = (obj_get payload ''includeNotes'' = Some (JBool True));
               query = (case obj_get payload ''query'' of
                          Some (JStr q) \<Rightarrow> to_lower e (js_trim q)
                        | _ \<Rightarrow> []);
               selected = selectCalendars cals payload;
               found = concat (map (calendar_rows e rng query includeNotes) selected);
               sorted_items = sort_by (row_before e) found;
               cut = (if int (length sorted_items) > limit then take (nat limit) sorted_items
                      else sorted_items)
           in Done \<lparr> items = cut, count = length cut, listed_range = rng,
                     listed_action = action \<rparr>))"

record event_times =
  et_start :: int
  et_end :: int
  et_allDay :: bool

definition ensureEventTimes :: "js_engine \<Rightarrow> json \<Rightarrow> event_times attempt" where
  "ensureEventTimes e payload =
     (let allDay = (obj_get payload ''allDay'' = Some (JBool True)
                    \<or> obj_get payload ''allday'' = Some (JBool True)
                    \<or> obj_get payload ''alldayEvent'' = Some (JBool True))
      in case parseDateInput e (obj_get payload ''start'') ''payload.start'' of
           Raised err \<Rightarrow> Raised err
         | Done start \<Rightarrow>
             (case (if truthy (obj_get payload ''end'')
                    then (case parseDateInput e (obj_get payload ''end'') ''payload.end'' of
                            Raised err \<Rightarrow> Raised err
                          | Done t \<Rightarrow> Done (Some t))
                    else Done (setHours e start (getHours e start + (if allDay then 24 else 1)))) of
                Raised err \<Rightarrow> Raised err
              | Done end \<Rightarrow>
                  (if (case end of Some t \<Rightarrow> t > start | None \<Rightarrow> False)
                   then Done \<lparr> et_start = start, et_end = the end, et_allDay = allDay \<rparr>
                   else Raised (JsError ''Error'' ''payload.end must be later than payload.start''))))"


section \<open>Names for what a send request asks for\<close>

text \<open>
  The values that \<^verbatim>\<open>handleSendMessage\<close> derives from an envelope, under the names of
  its local constants, so that its properties can speak of them: the message, the
  template, the mode, the content, the idempotency key, the key of the store entry and
  the entry that the store holds for it (\<^verbatim>\<open>existing\<close>).
\<close>

definition send_rawMessage :: "json \<Rightarrow> string option" where
  "send_rawMessage payload =
     orElse (readString (obj_get payload ''rawMessage''))
       (orElse (readString (obj_get payload ''message'')) (readString (obj_get payload ''raw'')))"

definition send_template :: "json \<Rightarrow> string option" where
  "send_template payload = readString (obj_get payload ''template'')"

definition send_useTemplate :: "json \<Rightarrow> bool" where
  "send_useTemplate payload =
     (send_template payload \<noteq> None \<or> readString (obj_get payload ''format'') = Some ''mml'')"

definition send_content :: "json \<Rightarrow> string" where
  "send_content payload =
     (case orElse (send_template payload) (send_rawMessage payload) of Some c \<Rightarrow> c | None \<Rightarrow> [])"

definition send_idempotencyKey :: "json \<Rightarrow> json \<Rightarrow> string option" where
  "send_idempotencyKey envelope payload =
     orElse (readString (obj_get envelope ''idempotencyKey''))
            (readString (obj_get payload ''idempotencyKey''))"

definition send_entryKey :: "host \<Rightarrow> json \<Rightarrow> string \<Rightarrow> string" where
  "send_entryKey h envelope k =
     (let s = resolveAdapterSettings h envelope
      in buildIdempotencyEntryKey (st_account s) (mode_name (send_useTemplate (st_payload s))) k)"

definition stored_entry :: "host \<Rightarrow> json \<Rightarrow> string \<Rightarrow> world \<Rightarrow> json option" where
  "stored_entry h envelope k w =
     (let s = resolveAdapterSettings h envelope;
          store = readIdempotencyStore w (resolveIdempotencyStorePath h s);
          v = map_of store (send_entryKey h envelope k)
      in if isRecord v then v else None)"

text \<open>The command line and the input of the backend send for an envelope.\<close>

definition send_command :: "host \<Rightarrow> json \<Rightarrow> string list \<times> string option" where
  "send_command h envelope =
     (let s = resolveAdapterSettings h envelope
      in (st_binary s # buildGlobalArgs s
            @ withAccountArg (if send_useTemplate (st_payload s) then [''template'', ''send'']
                              else [''message'', ''send'']) (st_account s),
          Some (send_content (st_payload s))))"

text \<open>What \<^verbatim>\<open>runHimalaya\<close> returns for the send when the command closes with \<open>r\<close>.\<close>

definition sent_result :: "host \<Rightarrow> json \<Rightarrow> exec_result \<Rightarrow> run_result" where
  "sent_result h envelope r =
     \<lparr> rr_ok = (ex_code r = Some 0), rr_argv = fst (send_command h envelope), rr_exec = r,
       rr_stdoutJson = (if js_trim (ex_stdout r) \<noteq> []
                        then json_parse h (js_trim (ex_stdout r)) else None) \<rparr>"

text \<open>What the backend does with that command.\<close>

definition send_outcome :: "runner \<Rightarrow> host \<Rightarrow> json \<Rightarrow> run_outcome" where
  "send_outcome run h envelope =
     (case send_command h envelope of (argv, input) \<Rightarrow> run argv input)"

text \<open>A content hash as the adapter writes it: a non-empty string of hexadecimal digits.\<close>

definition is_hex_digest :: "string \<Rightarrow> bool" where
  "is_hex_digest s = (s \<noteq> [] \<and> list_all (\<lambda>c. c \<in> set ''0123456789abcdef'') s)"

section \<open>A small surrounding for concrete runs\<close>

text \<open>
  \<open>toy_parse\<close> knows the handful of JSON texts that the concrete runs below use, and
  \<open>toy_digest\<close> is some digest function (the first 32 code units, padded), not
  SHA-256: the adapters only need digests to be bytes.
\<close>

definition toy_digest :: "string \<Rightarrow> 8 word list" where
  "toy_digest s = map (\<lambda>c. of_nat (of_char c)) (take 32 (s @ replicate 32 (CHR ''0'')))"

definition toy_parse :: "string \<Rightarrow> json option" where
  \<open>toy_parse = map_of
     [(''[]'', JArr []),
      (''{"action":"health"}'', JObj [(''action'', JStr ''health'')]),
      (''{"action":"frobnicate"}'', JObj [(''action'', JStr ''frobnicate'')]),
      (''{"domain":" mowen","action":"health"}'',
         JObj [(''domain'', JStr '' mowen''), (''action'', JStr ''health'')]),
      (''{"domain":"notes","action":"health"}'',
         JObj [(''domain'', JStr ''notes''), (''action'', JStr ''health'')]),
      (''{"action":"health","domain":"mowen"}'',
         JObj [(''action'', JStr ''health''), (''domain'', JStr ''mowen'')]),
      (''{"action":"send_message","idempotencyKey":"send-42","payload":{"rawMessage":"Hi"}}'',
         JObj [(''action'', JStr ''send_message''), (''idempotencyKey'', JStr ''send-42''),
               (''payload'', JObj [(''rawMessage'', JStr ''Hi'')])]),
      (''{"action":"send_message","idempotencyKey":"send-42","payload":{"rawMessage":"Bye"}}'',
         JObj [(''action'', JStr ''send_message''), (''idempotencyKey'', JStr ''send-42''),
               (''payload'', JObj [(''rawMessage'', JStr ''Bye'')])]),
      (''{"action":"send_message","idempotencyKey":"send-42","payload":{"template":"Bye"}}'',
         JObj [(''action'', JStr ''send_message''), (''idempotencyKey'', JStr ''send-42''),
               (''payload'', JObj [(''template'', JStr ''Bye'')])]),
      (''{"action":"send_message","idempotencyKey":"send-42","payload":{"rawMessage":"Bye","account":"work"}}'',
         JObj [(''action'', JStr ''send_message''), (''idempotencyKey'', JStr ''send-42''),
               (''payload'', JObj [(''rawMessage'', JStr ''Bye''), (''account'', JStr ''work'')])]),
      (''{"sent":true}'', JObj [(''sent'', JBool True)])]\<close>

definition example_host :: host where
  "example_host =
     \<lparr> environ = (\<lambda>name. None),
       default_state_dir = ''/state'',
       default_config_path = ''/config.toml'',
       path_join = (\<lambda>a b. a @ ''/'' @ b),
       json_parse = toy_parse,
       sha256 = toy_digest,
       file_exists = (\<lambda>p. False) \<rparr>"

definition configured_host :: host where
  "configured_host = example_host\<lparr> environ := [''MYOPS_MOWEN_API_KEY'' \<mapsto> ''secret''] \<rparr>"

definition empty_world :: world where
  "empty_world = \<lparr> files = (\<lambda>p. None), spawned = [] \<rparr>"

definition empty_mworld :: mworld where
  "empty_mworld = \<lparr> mw_files = (\<lambda>p. None), mw_requests = [], mw_clock = 0 \<rparr>"

text \<open>A backend on which every command exits with the given code, and one that cannot
  be started.\<close>

definition exiting :: "int \<Rightarrow> runner" where
  \<open>exiting c = (\<lambda>argv input.
     Closed \<lparr> ex_code = Some c, ex_signal = None, ex_killed = False,
              ex_stdout = (if c = 0 then ''{"sent":true}'' else []),
              ex_stderr = (if c = 0 then [] else ''failed'') \<rparr>)\<close>

definition rejecting_planner :: planner where
  "rejecting_planner = (\<lambda>action s. Reject ''not modelled'')"

definition no_fetch :: fetcher where
  "no_fetch = (\<lambda>url body. FetchFailed False ''unreachable'')"

definition no_builder :: request_builder where
  "no_builder = (\<lambda>action payload. Raised (JsError ''Error'' ''not modelled''))"

definition no_jxa :: jxa_runner where
  "no_jxa = (\<lambda>bin req. SpawnError ''osascript not found'')"


definition health_input :: string where
  \<open>health_input = ''{"action":"health"}''\<close>

definition health_envelope :: json where
  "health_envelope = JObj [(''action'', JStr ''health'')]"

definition frobnicate_input :: string where
  \<open>frobnicate_input = ''{"action":"frobnicate"}''\<close>

definition frobnicate_envelope :: json where
  "frobnicate_envelope = JObj [(''action'', JStr ''frobnicate'')]"

definition padded_domain_input :: string where
  \<open>padded_domain_input = ''{"domain":" mowen","action":"health"}''\<close>

definition notes_domain_input :: string where
  \<open>notes_domain_input = ''{"domain":"notes","action":"health"}''\<close>

definition notes_domain_envelope :: json where
  "notes_domain_envelope = JObj [(''domain'', JStr ''notes''), (''action'', JStr ''health'')]"

definition mowen_domain_input :: string where
  \<open>mowen_domain_input = ''{"action":"health","domain":"mowen"}''\<close>

text \<open>Two send requests with the same key and different messages, and the world that
  the first of them leaves behind when the backend accepts it.\<close>

definition hi_input :: string where
  \<open>hi_input = ''{"action":"send_message","idempotencyKey":"send-42","payload":{"rawMessage":"Hi"}}''\<close>

definition bye_input :: string where
  \<open>bye_input = ''{"action":"send_message","idempotencyKey":"send-42","payload":{"rawMessage":"Bye"}}''\<close>

text \<open>The second message again under the same key, once as a template and once for
  another account.\<close>

definition bye_template_input :: string where
  \<open>bye_template_input = ''{"action":"send_message","idempotencyKey":"send-42","payload":{"template":"Bye"}}''\<close>

definition bye_account_input :: string where
  \<open>bye_account_input = ''{"action":"send_message","idempotencyKey":"send-42","payload":{"rawMessage":"Bye","account":"work"}}''\<close>

definition hi_envelope :: json where
  "hi_envelope =
     JObj [(''action'', JStr ''send_message''), (''idempotencyKey'', JStr ''send-42''),
           (''payload'', JObj [(''rawMessage'', JStr ''Hi'')])]"

definition bye_envelope :: json where
  "bye_envelope =
     JObj [(''action'', JStr ''send_message''), (''idempotencyKey'', JStr ''send-42''),
           (''payload'', JObj [(''rawMessage'', JStr ''Bye'')])]"

definition world_after_hi :: world where
  "world_after_hi = snd (mail_main example_host (exiting 0) rejecting_planner hi_input empty_world)"

definition hi_record :: json where
  "hi_record =
     JObj [(''idempotencyKey'', JStr ''send-42''), (''account'', JNull),
           (''mode'', JStr ''raw-message''),
           (''contentHash'', JStr ''4869303030303030303030303030303030303030303030303030303030303030''),
           (''exec'', JObj [(''code'', JNum 0), (''signal'', JNull), (''killed'', JBool False)]),
           (''stdoutJson'', JObj [(''sent'', JBool True)])]"

section \<open>Creating an event\<close>

text \<open>
  \<^verbatim>\<open>pickTargetCalendar\<close> gives the position of the calendar that receives the event:
  the first calendar of the requested (or configured default) name, else the first
  writable calendar, else the first calendar.  \<^verbatim>\<open>createEvent\<close> returns the properties
  that it hands to \<^verbatim>\<open>Calendar.Event\<close> together with the calendars after the push; the
  identifier of the new event is the application's to give and is left open.
\<close>

fun first_index :: "('a \<Rightarrow> bool) \<Rightarrow> 'a list \<Rightarrow> nat option" where
  "first_index P [] = None"
| "first_index P (x # xs) = (if P x then Some 0 else map_option Suc (first_index P xs))"

definition pickTargetCalendar :: "calendar list \<Rightarrow> json \<Rightarrow> json \<Rightarrow> nat attempt" where
  "pickTargetCalendar cals cfg payload =
     (let requested = (case (case obj_get payload ''calendar'' of Some v \<Rightarrow> trimmed_name v | None \<Rightarrow> []) of
                         n # ns \<Rightarrow> Some n
                       | [] \<Rightarrow>
                           (case (case obj_get cfg ''defaultCalendar'' of
                                    Some v \<Rightarrow> trimmed_name v | None \<Rightarrow> []) of
                              n # ns \<Rightarrow> Some n
                            | [] \<Rightarrow> None))
      in case requested of
           Some n \<Rightarrow>
             (case first_index (\<lambda>c. cal_name c = Some n) cals of
                Some i \<Rightarrow> Done i
              | None \<Rightarrow> Raised (JsError ''Error'' (''calendar not found: '' @ n)))
         | None \<Rightarrow>
             (case first_index cal_writable cals of
                Some i \<Rightarrow> Done i
              | None \<Rightarrow>
                  (if cals \<noteq> [] then Done 0
                   else Raised (JsError ''Error'' ''no calendars available''))))"

definition string_prop :: "json \<Rightarrow> string \<Rightarrow> string option" where
  "string_prop obj k = (case obj_get obj k of Some (JStr s) \<Rightarrow> Some s | _ \<Rightarrow> None)"

definition createEvent :: "js_engine \<Rightarrow> calendar list \<Rightarrow> json \<Rightarrow> json
                           \<Rightarrow> (cal_event \<times> calendar list) attempt" where
  "createEvent e cals cfg payload =
     (let title = (case (case obj_get payload ''title'' of Some v \<Rightarrow> trimmed_name v | None \<Rightarrow> []) of
                     t # ts \<Rightarrow> Some t
                   | [] \<Rightarrow>
                       (case (case obj_get payload ''summary'' of Some v \<Rightarrow> trimmed_name v | None \<Rightarrow> []) of
                          t # ts \<Rightarrow> Some t
                        | [] \<Rightarrow> None))
      in case title of
           None \<Rightarrow> Raised (JsError ''Error'' ''payload.title (or summary) required'')
         | Some t \<Rightarrow>
             (case pickTargetCalendar cals cfg payload of
                Raised err \<Rightarrow> Raised err
              | Done i \<Rightarrow>
                  (case ensureEventTimes e payload of
                     Raised err \<Rightarrow> Raised err
                   | Done tm \<Rightarrow>
                       (let ev = \<lparr> ev_uid = None, ev_id = None, ev_summary = Some t,
                                   ev_startDate = Some (et_start tm),
                                   ev_endDate = Some (et_end tm),
                                   ev_allday = et_allDay tm,
                                   ev_location = string_prop payload ''location'',
                                   ev_description = orElse (string_prop payload ''description'')
                                                           (string_prop payload ''notes'') \<rparr>
                        in Done (ev, cals[i := (cals ! i)\<lparr> cal_events := cal_events (cals ! i) @ [ev] \<rparr>])))))"

section \<open>Names for what a listing and an event creation ask for\<close>

text \<open>The values that \<^verbatim>\<open>listEvents\<close> derives from its payload, and the rows that pass
  its tests before sorting and cutting.\<close>

definition limit_of :: "json \<Rightarrow> int" where
  "limit_of payload = clampPositiveInt (obj_get payload ''limit'') 50 500"

definition notes_wanted :: "json \<Rightarrow> bool" where
  "notes_wanted payload = (obj_get payload ''includeNotes'' = Some (JBool True))"

definition query_of :: "js_engine \<Rightarrow> json \<Rightarrow> string" where
  "query_of e payload =
     (case obj_get payload ''query'' of Some (JStr q) \<Rightarrow> to_lower e (js_trim q) | _ \<Rightarrow> [])"

definition found_rows :: "js_engine \<Rightarrow> calendar list \<Rightarrow> json \<Rightarrow> date_range \<Rightarrow> event_row list" where
  "found_rows e cals payload rng =
     concat (map (calendar_rows e rng (query_of e payload) (notes_wanted payload))
                 (selectCalendars cals payload))"

text \<open>The row of an event as the listing shows it: without the notes unless they were
  asked for.\<close>

definition shown_row :: "json \<Rightarrow> calendar \<Rightarrow> cal_event \<Rightarrow> event_row" where
  "shown_row payload cal ev =
     (if notes_wanted payload then eventToJson ev (cal_name cal)
      else (eventToJson ev (cal_name cal))\<lparr> row_notes := None \<rparr>)"




section \<open>Engines and calendars for concrete runs\<close>

text \<open>
  \<open>utc_engine\<close> runs in a zone without offset.  \<open>ny_engine\<close> has the offsets of
  America/New_York around the end of daylight-saving time on 3 November 2024 (at
  06:00 UTC the local clock goes from 02:00 back to 01:00): four hours behind UTC before
  it, five hours after it; a local time that occurs twice is read as the earlier one.
  Both know the date texts that the runs below use.
\<close>

fun toy_compare :: "string \<Rightarrow> string \<Rightarrow> int" where
  "toy_compare [] [] = 0"
| "toy_compare [] (y # ys) = - 1"
| "toy_compare (x # xs) [] = 1"
| "toy_compare (x # xs) (y # ys) =
     (if (of_char x :: nat) < of_char y then - 1
      else if (of_char x :: nat) > of_char y then 1
      else toy_compare xs ys)"

definition ascii_lower :: "string \<Rightarrow> string" where
  "ascii_lower s = map (\<lambda>c. if 65 \<le> (of_char c :: nat) \<and> (of_char c :: nat) \<le> 90
                            then char_of ((of_char c :: nat) + 32) else c) s"

definition utc_engine :: js_engine where
  "utc_engine =
     \<lparr> now_ms = 0,
       date_parse = map_of [(''1970-01-01T10:30:00Z'', 37800000), (''1970-01-01T11:30:00Z'', 41400000)],
       local_midnight = (\<lambda>y mo da. if (y, mo, da) = (1970, 1, 1) then Some 0 else None),
       local_tza = (\<lambda>t isUTC. 0),
       to_lower = ascii_lower,
       locale_compare = toy_compare \<rparr>"


text \<open>Three events on 1 January 1970 (times in UTC): a stand-up from 10:00 to 11:00, a
  review from 10:15 to 10:45 and a lunch from 11:30 to 12:00.\<close>

definition standup :: cal_event where
  "standup = \<lparr> ev_uid = Some ''E1'', ev_id = None, ev_summary = Some ''Standup'',
               ev_startDate = Some 36000000, ev_endDate = Some 39600000, ev_allday = False,
               ev_location = None, ev_description = None \<rparr>"

definition review :: cal_event where
  "review = \<lparr> ev_uid = Some ''E3'', ev_id = None, ev_summary = Some ''Review'',
              ev_startDate = Some 36900000, ev_endDate = Some 38700000, ev_allday = False,
              ev_location = None, ev_description = None \<rparr>"

definition lunch :: cal_event where
  "lunch = \<lparr> ev_uid = Some ''E2'', ev_id = None, ev_summary = Some ''Lunch'',
             ev_startDate = Some 41400000, ev_endDate = Some 43200000, ev_allday = False,
             ev_location = None, ev_description = None \<rparr>"

definition work :: calendar where
  "work = \<lparr> cal_name = Some ''Work'', cal_writable = True,
            cal_events = [lunch, review, standup], cal_whose_fails = False \<rparr>"

text \<open>Listing payloads for the range from 10:30 to 11:30, without and with a limit of
  one item, and payloads that create an event without an end.\<close>

definition range_payload :: json where
  "range_payload = JObj [(''start'', JStr ''1970-01-01T10:30:00Z''), (''end'', JStr ''1970-01-01T11:30:00Z'')]"

definition limited_payload :: json where
  "limited_payload = JObj [(''start'', JStr ''1970-01-01T10:30:00Z''), (''end'', JStr ''1970-01-01T11:30:00Z''),
                           (''limit'', JNum 1)]"





section \<open>Properties: objects, trimming and digests\<close>

lemma map_of_assoc_set:
  "map_of (assoc_set k v kvs) k' = (if k' = k then Some v else map_of kvs k')"
  by (induction kvs) auto

lemma map_of_spread_fresh:
  "k \<notin> fst ` set b \<Longrightarrow> map_of (spread a b) k = map_of a k"
  unfolding spread_def
  by (induction b arbitrary: a) (auto simp: map_of_assoc_set)

lemma dropWhile_hd_id: "xs = [] \<or> \<not> P (hd xs) \<Longrightarrow> dropWhile P xs = xs"
  by (cases xs) auto

lemma js_trim_id:
  assumes "s = [] \<or> (\<not> is_js_space (hd s) \<and> \<not> is_js_space (last s))"
  shows "js_trim s = s"
proof -
  have 1: "dropWhile is_js_space s = s"
    using assms by (intro dropWhile_hd_id) auto
  have 2: "dropWhile is_js_space (rev s) = rev s"
    using assms by (intro dropWhile_hd_id) (auto simp: hd_rev)
  show ?thesis by (simp add: js_trim_def 1 2)
qed

lemma hex_not_space: "c \<in> set ''0123456789abcdef'' \<Longrightarrow> \<not> is_js_space c"
  by (auto simp: is_js_space_def)

lemma js_trim_hex: "is_hex_digest s \<Longrightarrow> js_trim s = s"
proof -
  assume a: "is_hex_digest s"
  then have ne: "s \<noteq> []" and all: "\<forall>c\<in>set s. c \<in> set ''0123456789abcdef''"
    by (auto simp: is_hex_digest_def list_all_iff)
  from ne have "hd s \<in> set s" "last s \<in> set s" by auto
  with all have "\<not> is_js_space (hd s)" "\<not> is_js_space (last s)" using hex_not_space by blast+
  then show ?thesis by (intro js_trim_id) simp
qed

lemma readString_hex: "is_hex_digest s \<Longrightarrow> readString (Some (JStr s)) = Some s"
  by (simp add: js_trim_hex Let_def) (simp add: is_hex_digest_def)




section \<open>Properties of the mail adapter\<close>

lemmas send_names = send_rawMessage_def send_template_def send_useTemplate_def send_content_def
  send_idempotencyKey_def send_entryKey_def stored_entry_def

text \<open>The three ways through \<^verbatim>\<open>handleSendMessage\<close> for a request that carries a
  message and a key: the key is stored with another hash, the key is stored with this
  hash (or with none), the key is not stored.\<close>

lemma handleSendMessage_conflict:
  assumes "p = st_payload (resolveAdapterSettings h envelope)"
    and "send_rawMessage p \<noteq> None \<or> send_template p \<noteq> None"
    and "send_idempotencyKey envelope p = Some k"
    and "stored_entry h envelope k w = Some ex"
    and "readString (obj_get ex ''contentHash'') = Some H"
    and "H \<noteq> sha256Hex h (send_content p)"
  shows "handleSendMessage h run envelope action w =
     (Done \<lparr> exitCode = 2,
             body = envelopeErrorResponse action
               [(''error'', JStr ''idempotency key reuse with different payload content''),
                (''idempotency'',
                   JObj [(''key'', JStr k),
                         (''storePath'', JStr (resolveIdempotencyStorePath h (resolveAdapterSettings h envelope))),
                         (''conflict'', JBool True),
                         (''existingContentHash'', JStr H),
                         (''contentHash'', JStr (sha256Hex h (send_content p)))])] \<rparr>, w)"
  using assms unfolding handleSendMessage_def send_names Let_def
  by (auto split: if_splits option.splits)


lemma handleSendMessage_fresh:
  assumes "p = st_payload (resolveAdapterSettings h envelope)"
    and "send_rawMessage p \<noteq> None \<or> send_template p \<noteq> None"
    and "send_idempotencyKey envelope p = Some k"
    and "stored_entry h envelope k w = None"
  shows "handleSendMessage h run envelope action w =
     sendAndRecord h run action (resolveAdapterSettings h envelope) (send_useTemplate p)
       (send_content p) (sha256Hex h (send_content p)) (Some k)
       (Some (resolveIdempotencyStorePath h (resolveAdapterSettings h envelope),
              readIdempotencyStore w (resolveIdempotencyStorePath h (resolveAdapterSettings h envelope)),
              send_entryKey h envelope k)) w"
  using assms unfolding handleSendMessage_def send_names Let_def
  by (auto split: if_splits option.splits)

lemma sendAndRecord_closed:
  assumes "send_outcome run h envelope = Closed r"
    and "p = st_payload (resolveAdapterSettings h envelope)"
  shows "sendAndRecord h run action (resolveAdapterSettings h envelope) (send_useTemplate p)
            (send_content p) contentHash (Some k) (Some (storePath, store, entryKey)) w =
     (let w1 = w\<lparr> spawned := spawned w @ [send_command h envelope] \<rparr>
      in (Done (wrap_result action (sent_result h envelope r)
                  [(''request'', JObj [(''mode'', JStr (mode_name (send_useTemplate p)))]),
                   (''idempotency'', JObj [(''key'', JStr k), (''duplicate'', JBool False),
                                           (''storePath'', JStr storePath),
                                           (''contentHash'', JStr contentHash)])]),
          if ex_code r = Some 0
          then writeIdempotencyStore storePath
                 (assoc_set entryKey
                    (idempotency_record k (resolveAdapterSettings h envelope) (send_useTemplate p)
                       contentHash (sent_result h envelope r)) store) w1
          else w1))"
  using assms
  unfolding sendAndRecord_def runHimalaya_def runCommand_def send_command_def send_outcome_def
    sent_result_def Let_def
  by (auto split: if_splits option.splits)

lemma sendAndRecord_spawn_error:
  assumes "send_outcome run h envelope = SpawnError m"
    and "p = st_payload (resolveAdapterSettings h envelope)"
  shows "sendAndRecord h run action (resolveAdapterSettings h envelope) (send_useTemplate p)
            (send_content p) contentHash key meta w =
     (Raised (JsError ''Error'' m), w\<lparr> spawned := spawned w @ [send_command h envelope] \<rparr>)"
  using assms
  unfolding sendAndRecord_def runHimalaya_def runCommand_def send_command_def send_outcome_def Let_def
  by (auto split: if_splits option.splits)

lemma mail_main_send:
  assumes "readJsonStdin h input = Done envelope" and "isRecord (Some envelope)"
    and "readString (obj_get envelope ''action'') = Some ''send_message''"
  shows "mail_main h run planOf input w =
     (case handleSendMessage h run envelope ''send_message'' w of
        (Raised e, w1) \<Rightarrow>
          (\<lparr> exit_code = 99, printed = mail_failure (''adapter crash: '' @ error_string e) \<rparr>, w1)
      | (Done res, w1) \<Rightarrow> (\<lparr> exit_code = exitCode res, printed = body res \<rparr>, w1))"
  using assms by (simp add: mail_main_def dispatch_def)

text \<open>
  Claim C2, as the code has it.  The store is keyed by the entry key that
  \<^verbatim>\<open>buildIdempotencyEntryKey\<close> makes of the account of the request (or
  \<^verbatim>\<open>default\<close>), its mode (\<^verbatim>\<open>template\<close> or \<^verbatim>\<open>raw-message\<close>) and the idempotency
  key.  Let the envelope read from standard input ask for \<^verbatim>\<open>send_message\<close> with a
  message and the idempotency key \<open>k\<close>, and let the store hold, under the entry key of
  this very request, a record whose content hash \<open>H\<close> differs from the hash of the
  message.  Then the process exits with code 2, its response has \<^verbatim>\<open>ok: false\<close> and
  \<^verbatim>\<open>idempotency.conflict: true\<close>, and the world is as before: no command was spawned
  and the store was not written.
\<close>

theorem idempotency_conflict_rejected:
  assumes "readJsonStdin h input = Done envelope" and "isRecord (Some envelope)"
    and "readString (obj_get envelope ''action'') = Some ''send_message''"
    and "p = st_payload (resolveAdapterSettings h envelope)"
    and "send_rawMessage p \<noteq> None \<or> send_template p \<noteq> None"
    and "send_idempotencyKey envelope p = Some k"
    and "stored_entry h envelope k w = Some ex"
    and "obj_get ex ''contentHash'' = Some (JStr H)" and "is_hex_digest H"
    and "H \<noteq> sha256Hex h (send_content p)"
  shows "exit_code (fst (mail_main h run planOf input w)) = 2
       \<and> obj_get (printed (fst (mail_main h run planOf input w))) ''ok'' = Some (JBool False)
       \<and> opt_get (obj_get (printed (fst (mail_main h run planOf input w))) ''idempotency'') ''conflict''
           = Some (JBool True)
       \<and> snd (mail_main h run planOf input w) = w"
proof -
  have "readString (obj_get ex ''contentHash'') = Some H"
    using assms(8,9) by (simp only: readString_hex)
  from handleSendMessage_conflict [OF assms(4,5,6,7) this assms(10)]
  show ?thesis
    unfolding mail_main_send [OF assms(1,2,3)]
    by (simp add: envelopeErrorResponse_def spread_def)
qed

theorem idempotency_conflict_rejected_witness:
  "exit_code (fst (mail_main example_host (exiting 0) rejecting_planner bye_input world_after_hi)) = 2
   \<and> obj_get (printed (fst (mail_main example_host (exiting 0) rejecting_planner bye_input world_after_hi))) ''ok''
       = Some (JBool False)
   \<and> opt_get (obj_get (printed (fst (mail_main example_host (exiting 0) rejecting_planner bye_input world_after_hi)))
                ''idempotency'') ''conflict'' = Some (JBool True)
   \<and> snd (mail_main example_host (exiting 0) rejecting_planner bye_input world_after_hi) = world_after_hi"
proof -
  have 1: "readJsonStdin example_host bye_input = Done bye_envelope" by code_simp
  have 2: "isRecord (Some bye_envelope)" by code_simp
  have 3: "readString (obj_get bye_envelope ''action'') = Some ''send_message''" by code_simp
  have 5: "send_rawMessage (st_payload (resolveAdapterSettings example_host bye_envelope)) \<noteq> None
           \<or> send_template (st_payload (resolveAdapterSettings example_host bye_envelope)) \<noteq> None"
    by code_simp
  have 6: "send_idempotencyKey bye_envelope (st_payload (resolveAdapterSettings example_host bye_envelope))
           = Some ''send-42''" by code_simp
  have 7: "stored_entry example_host bye_envelope ''send-42'' world_after_hi = Some hi_record"
    by code_simp
  have 8: "obj_get hi_record ''contentHash''
           = Some (JStr ''4869303030303030303030303030303030303030303030303030303030303030'')"
    by code_simp
  have 9: "is_hex_digest ''4869303030303030303030303030303030303030303030303030303030303030''"
    by code_simp
  have 10: "''4869303030303030303030303030303030303030303030303030303030303030''
            \<noteq> sha256Hex example_host (send_content (st_payload (resolveAdapterSettings example_host bye_envelope)))"
    by code_simp
  show ?thesis
    by (rule idempotency_conflict_rejected [OF 1 2 3 refl 5 6 7 8 9 10])
qed

text \<open>Claim C2 as stated fails: after the key \<^verbatim>\<open>send-42\<close> has been recorded with the
  hash of the raw message \<^verbatim>\<open>Hi\<close>, the same key with the different message
  \<^verbatim>\<open>Bye\<close> is sent, with exit code 0 and \<^verbatim>\<open>ok: true\<close>, when the message comes as a
  template or for the account \<^verbatim>\<open>work\<close>: either makes another entry key.\<close>

theorem recorded_key_reused_under_other_entry:
  "readIdempotencyStore world_after_hi ''/state/himalaya-mail-idempotency.json''
     = [(''default::raw-message::send-42'', hi_record)]
   \<and> obj_get hi_record ''idempotencyKey'' = Some (JStr ''send-42'')
   \<and> obj_get hi_record ''contentHash''
       = Some (JStr ''4869303030303030303030303030303030303030303030303030303030303030'')
   \<and> sha256Hex example_host ''Bye''
       \<noteq> ''4869303030303030303030303030303030303030303030303030303030303030''
   \<and> exit_code (fst (mail_main example_host (exiting 0) rejecting_planner bye_template_input world_after_hi)) = 0
   \<and> obj_get (printed (fst (mail_main example_host (exiting 0) rejecting_planner bye_template_input
                                world_after_hi))) ''ok'' = Some (JBool True)
   \<and> spawned (snd (mail_main example_host (exiting 0) rejecting_planner bye_template_input world_after_hi))
       = spawned world_after_hi
         @ [([''himalaya'', ''-o'', ''json'', ''--quiet'', ''template'', ''send''], Some ''Bye'')]
   \<and> exit_code (fst (mail_main example_host (exiting 0) rejecting_planner bye_account_input world_after_hi)) = 0
   \<and> obj_get (printed (fst (mail_main example_host (exiting 0) rejecting_planner bye_account_input
                                world_after_hi))) ''ok'' = Some (JBool True)
   \<and> spawned (snd (mail_main example_host (exiting 0) rejecting_planner bye_account_input world_after_hi))
       = spawned world_after_hi
         @ [([''himalaya'', ''-o'', ''json'', ''--quiet'', ''message'', ''send'', ''-a'', ''work''],
             Some ''Bye'')]"
  by code_simp


text \<open>The run of the process on a send request whose key is not stored and whose backend
  command closes.\<close>

lemma first_send:
  assumes parse: "readJsonStdin h input = Done envelope" "isRecord (Some envelope)"
    and action: "readString (obj_get envelope ''action'') = Some ''send_message''"
    and p: "p = st_payload (resolveAdapterSettings h envelope)"
    and msg: "send_rawMessage p \<noteq> None \<or> send_template p \<noteq> None"
    and key: "send_idempotencyKey envelope p = Some k"
    and fresh: "stored_entry h envelope k w = None"
    and backend: "send_outcome run h envelope = Closed r"
  shows "mail_main h run planOf input w =
     (let w1 = w\<lparr> spawned := spawned w @ [send_command h envelope] \<rparr>;
          res = wrap_result ''send_message'' (sent_result h envelope r)
                  [(''request'', JObj [(''mode'', JStr (mode_name (send_useTemplate p)))]),
                   (''idempotency'',
                      JObj [(''key'', JStr k), (''duplicate'', JBool False),
                            (''storePath'', JStr (resolveIdempotencyStorePath h (resolveAdapterSettings h envelope))),
                            (''contentHash'', JStr (sha256Hex h (send_content p)))])]
      in (\<lparr> exit_code = exitCode res, printed = body res \<rparr>,
          if ex_code r = Some 0
          then writeIdempotencyStore (resolveIdempotencyStorePath h (resolveAdapterSettings h envelope))
                 (assoc_set (send_entryKey h envelope k)
                    (idempotency_record k (resolveAdapterSettings h envelope) (send_useTemplate p)
                       (sha256Hex h (send_content p)) (sent_result h envelope r))
                    (readIdempotencyStore w (resolveIdempotencyStorePath h (resolveAdapterSettings h envelope)))) w1
          else w1))"
  unfolding mail_main_send [OF parse action] handleSendMessage_fresh [OF p msg key fresh]
    sendAndRecord_closed [OF backend p]
  by (simp add: Let_def)

lemma wrap_result_ok:
  "''ok'' \<notin> fst ` set extra \<Longrightarrow>
   obj_get (body (wrap_result action r extra)) ''ok'' = Some (JBool (rr_ok r))"
  by (simp add: wrap_result_def envelopeOkResponse_def envelopeErrorResponse_def map_of_spread_fresh)

text \<open>
  Claim C3.  Let the envelope ask for \<^verbatim>\<open>send_message\<close> with a message and the
  idempotency key \<open>k\<close>, let the store hold no record under the entry key of the request,
  and let the backend send close with a code other than 0 (or with none, when a signal
  ended it).  Then the process exits with code 3 and \<^verbatim>\<open>ok: false\<close>, the files are as
  before, so the store still holds no record for the key, and exactly the send command
  was spawned; and when the same request is run again on the world left behind, with
  whatever backend, the send command is spawned again.
\<close>

theorem failed_send_is_not_recorded:
  assumes parse: "readJsonStdin h input = Done envelope" "isRecord (Some envelope)"
    and action: "readString (obj_get envelope ''action'') = Some ''send_message''"
    and p: "p = st_payload (resolveAdapterSettings h envelope)"
    and msg: "send_rawMessage p \<noteq> None \<or> send_template p \<noteq> None"
    and key: "send_idempotencyKey envelope p = Some k"
    and fresh: "stored_entry h envelope k w = None"
    and backend: "send_outcome run h envelope = Closed r"
    and failed: "ex_code r \<noteq> Some 0"
    and first: "mail_main h run planOf input w = (r1, w1)"
  shows "exit_code r1 = 3 \<and> obj_get (printed r1) ''ok'' = Some (JBool False)
       \<and> files w1 = files w
       \<and> stored_entry h envelope k w1 = None
       \<and> spawned w1 = spawned w @ [send_command h envelope]
       \<and> spawned (snd (mail_main h run2 planOf input w1)) = spawned w1 @ [send_command h envelope]"
proof -
  note one = first_send [OF parse action p msg key fresh backend, of planOf]
  from one first failed have r1: "exit_code r1 = 3"
    by (auto simp: Let_def wrap_result_def sent_result_def)
  from one first failed have ok1: "obj_get (printed r1) ''ok'' = Some (JBool False)"
    by (auto simp: Let_def wrap_result_ok sent_result_def)
  from one first failed have w1: "w1 = w\<lparr> spawned := spawned w @ [send_command h envelope] \<rparr>"
    by (auto simp: Let_def)
  then have fresh1: "stored_entry h envelope k w1 = None"
    using fresh by (simp add: stored_entry_def readIdempotencyStore_def Let_def)
  have again: "spawned (snd (mail_main h run2 planOf input w1)) = spawned w1 @ [send_command h envelope]"
  proof (cases "send_outcome run2 h envelope")
    case (Closed r')
    show ?thesis
      unfolding first_send [OF parse action p msg key fresh1 Closed]
      by (simp add: Let_def writeIdempotencyStore_def)
  next
    case (SpawnError m)
    show ?thesis
      unfolding mail_main_send [OF parse action] handleSendMessage_fresh [OF p msg key fresh1]
        sendAndRecord_spawn_error [OF SpawnError p]
      by simp
  qed
  from r1 ok1 w1 fresh1 again show ?thesis by simp
qed

theorem failed_send_is_not_recorded_witness:
  "exit_code (fst (mail_main example_host (exiting 1) rejecting_planner hi_input empty_world)) = 3
   \<and> obj_get (printed (fst (mail_main example_host (exiting 1) rejecting_planner hi_input empty_world))) ''ok''
       = Some (JBool False)
   \<and> files (snd (mail_main example_host (exiting 1) rejecting_planner hi_input empty_world)) = files empty_world
   \<and> stored_entry example_host hi_envelope ''send-42''
        (snd (mail_main example_host (exiting 1) rejecting_planner hi_input empty_world)) = None
   \<and> spawned (snd (mail_main example_host (exiting 1) rejecting_planner hi_input empty_world))
       = spawned empty_world @ [send_command example_host hi_envelope]
   \<and> spawned (snd (mail_main example_host (exiting 0) rejecting_planner hi_input
                (snd (mail_main example_host (exiting 1) rejecting_planner hi_input empty_world))))
       = spawned (snd (mail_main example_host (exiting 1) rejecting_planner hi_input empty_world))
         @ [send_command example_host hi_envelope]"
proof -
  have 1: "readJsonStdin example_host hi_input = Done hi_envelope" by code_simp
  have 2: "isRecord (Some hi_envelope)" by code_simp
  have 3: "readString (obj_get hi_envelope ''action'') = Some ''send_message''" by code_simp
  have 5: "send_rawMessage (st_payload (resolveAdapterSettings example_host hi_envelope)) \<noteq> None
           \<or> send_template (st_payload (resolveAdapterSettings example_host hi_envelope)) \<noteq> None"
    by code_simp
  have 6: "send_idempotencyKey hi_envelope (st_payload (resolveAdapterSettings example_host hi_envelope))
           = Some ''send-42''" by code_simp
  have 7: "stored_entry example_host hi_envelope ''send-42'' empty_world = None" by code_simp
  have 8: "send_outcome (exiting 1) example_host hi_envelope =
           Closed \<lparr> ex_code = Some 1, ex_signal = None, ex_killed = False, ex_stdout = [],
                    ex_stderr = ''failed'' \<rparr>"
    by code_simp
  have 9: "ex_code \<lparr> ex_code = Some 1, ex_signal = None, ex_killed = False, ex_stdout = [],
                     ex_stderr = ''failed'' \<rparr> \<noteq> Some 0"
    by simp
  show ?thesis
    by (rule failed_send_is_not_recorded [OF 1 2 3 refl 5 6 7 8 9 surjective_pairing])
qed



text \<open>
  Claim C5, as the code has it.  The mail adapter exits with code 2 only for input that
  parses to something other than an object.  Input that is empty after trimming, and
  input that \<^verbatim>\<open>JSON.parse\<close> rejects, make \<^verbatim>\<open>readJsonStdin\<close> throw, and the
  \<^verbatim>\<open>main().catch\<close> of the script answers with the crash envelope and exit code 99.
  In all three cases the response has \<^verbatim>\<open>ok: false\<close>, no command is spawned and no
  file is written.
\<close>

theorem mail_malformed_input:
  "(js_trim input = [] \<or> json_parse h (js_trim input) = None \<longrightarrow>
      exit_code (fst (mail_main h run planOf input w)) = 99
      \<and> obj_get (printed (fst (mail_main h run planOf input w))) ''ok'' = Some (JBool False)
      \<and> snd (mail_main h run planOf input w) = w)
   \<and> (js_trim input \<noteq> [] \<and> json_parse h (js_trim input) = Some v \<and> \<not> isRecord (Some v) \<longrightarrow>
      exit_code (fst (mail_main h run planOf input w)) = 2
      \<and> obj_get (printed (fst (mail_main h run planOf input w))) ''ok'' = Some (JBool False)
      \<and> snd (mail_main h run planOf input w) = w)"
  by (auto simp: mail_main_def readJsonStdin_def mail_failure_def Let_def)

theorem mail_malformed_input_witness:
  "(exit_code (fst (mail_main example_host (exiting 0) rejecting_planner ''  '' empty_world)) = 99
    \<and> obj_get (printed (fst (mail_main example_host (exiting 0) rejecting_planner ''  '' empty_world))) ''ok''
        = Some (JBool False)
    \<and> snd (mail_main example_host (exiting 0) rejecting_planner ''  '' empty_world) = empty_world)
   \<and> (exit_code (fst (mail_main example_host (exiting 0) rejecting_planner ''{'' empty_world)) = 99
    \<and> obj_get (printed (fst (mail_main example_host (exiting 0) rejecting_planner ''{'' empty_world))) ''ok''
        = Some (JBool False)
    \<and> snd (mail_main example_host (exiting 0) rejecting_planner ''{'' empty_world) = empty_world)
   \<and> (exit_code (fst (mail_main example_host (exiting 0) rejecting_planner ''[]'' empty_world)) = 2
    \<and> obj_get (printed (fst (mail_main example_host (exiting 0) rejecting_planner ''[]'' empty_world))) ''ok''
        = Some (JBool False)
    \<and> snd (mail_main example_host (exiting 0) rejecting_planner ''[]'' empty_world) = empty_world)"
proof -
  have 1: "js_trim ''  '' = []" by code_simp
  have 2: "json_parse example_host (js_trim ''{'') = None" by code_simp
  have 3: "js_trim ''[]'' \<noteq> [] \<and> json_parse example_host (js_trim ''[]'') = Some (JArr [])
           \<and> \<not> isRecord (Some (JArr []))" by code_simp
  from 1 2 3
    mail_malformed_input [where input = "''  ''" and h = example_host and run = "exiting 0"
      and planOf = rejecting_planner and w = empty_world]
    mail_malformed_input [where input = "''{''" and h = example_host and run = "exiting 0"
      and planOf = rejecting_planner and w = empty_world]
    mail_malformed_input [where input = "''[]''" and h = example_host and run = "exiting 0"
      and planOf = rejecting_planner and w = empty_world and v = "JArr []"]
  show ?thesis by blast
qed

text \<open>Claim C5 as stated fails: on empty standard input the mail adapter exits with
  code 99, not 2.\<close>

theorem mail_empty_stdin_exits_99:
  "exit_code (fst (mail_main example_host (exiting 0) rejecting_planner [] empty_world)) = 99
   \<and> exit_code (fst (mail_main example_host (exiting 0) rejecting_planner [] empty_world)) \<noteq> 2"
  by code_simp

text \<open>
  Claim C6 at a failing input.  The mail adapter is asked for \<^verbatim>\<open>health\<close> and the
  backend's \<^verbatim>\<open>--version\<close> command exits with code 1.  The process exits with code 3
  and reports \<^verbatim>\<open>checks.binaryOk: false\<close>, yet the \<^verbatim>\<open>ok\<close> field of the response is
  \<^verbatim>\<open>true\<close>.
\<close>

theorem mail_health_ok_despite_failed_check:
  "exit_code (fst (mail_main example_host (exiting 1) rejecting_planner health_input empty_world)) = 3
   \<and> obj_get (printed (fst (mail_main example_host (exiting 1) rejecting_planner health_input empty_world)))
        ''ok'' = Some (JBool True)
   \<and> opt_get (obj_get (printed (fst (mail_main example_host (exiting 1) rejecting_planner health_input
                                       empty_world))) ''checks'') ''binaryOk'' = Some (JBool False)"
  by code_simp

text \<open>The same for every backend and envelope: once the \<^verbatim>\<open>--version\<close> command has
  closed and the deep probe (if any) has returned, \<^verbatim>\<open>handleHealth\<close> answers
  \<^verbatim>\<open>ok: true\<close>, whatever the exit code was.\<close>

lemma handleHealth_ok_whatever_the_code:
  assumes "handleHealth h run envelope action w = (Done res, w1)"
    and "run [st_binary (resolveAdapterSettings h envelope), ''--version''] None = Closed r"
  shows "obj_get (body res) ''ok'' = Some (JBool True)
         \<and> exitCode res = (if ex_code r = Some 0 then 0 else 3)"
  using assms
  unfolding handleHealth_def runCommand_def Let_def
  by (auto simp: envelopeOkResponse_def spread_def split: if_splits prod.splits attempt.splits)

text \<open>The notes adapter's \<^verbatim>\<open>health\<close> does tie \<^verbatim>\<open>ok\<close> to the local check.\<close>

lemma sanitizeForHealth_ok:
  "obj_get (sanitizeForHealth s) ''ok'' = Some (JBool (ms_apiKey s \<noteq> None))"
  by (simp add: sanitizeForHealth_def)

section \<open>Properties of the three entry points\<close>

lemma normalizeAction_unsupported:
  "a \<notin> set mowen_supportedActions \<Longrightarrow> normalizeAction a = a"
  by (simp add: mowen_supportedActions_def normalizeAction_def)

lemma resolveEndpointAndRequest_unsupported:
  "a \<notin> set mowen_supportedActions \<Longrightarrow> resolveEndpointAndRequest build a payload = Done None"
  by (simp add: mowen_supportedActions_def resolveEndpointAndRequest_def)

text \<open>
  Claim C4, as the code has it.  Let the envelope read from standard input name the
  action \<open>a\<close>.  If \<open>a\<close> is outside the mail adapter's actions, the mail adapter exits
  with code 2, \<^verbatim>\<open>ok: false\<close> and the list of its actions under
  \<^verbatim>\<open>supportedActions\<close>; likewise the calendar adapter, which hands nothing to the
  script.  If \<open>a\<close> is outside the notes adapter's actions, the notes adapter exits with
  code 2 and \<^verbatim>\<open>ok: false\<close> without sending a request or touching its files, but its
  response carries an error message and no list of supported actions; with an accepted
  domain and an API key the message is that of \<^verbatim>\<open>unsupportedActionMessage\<close>.
\<close>

theorem unknown_action_rejected:
  assumes "readJsonStdin h input = Done envelope" and "isRecord (Some envelope)"
    and "readString (obj_get envelope ''action'') = Some a"
  shows "(a \<notin> set mail_supportedActions \<longrightarrow>
            exit_code (fst (mail_main h run planOf input w)) = 2
          \<and> obj_get (printed (fst (mail_main h run planOf input w))) ''ok'' = Some (JBool False)
          \<and> obj_get (printed (fst (mail_main h run planOf input w))) ''supportedActions''
              = Some (JArr (map JStr mail_supportedActions))
          \<and> snd (mail_main h run planOf input w) = w)
       \<and> (a \<notin> set calendar_supportedActions \<longrightarrow>
            exit_code (fst (calendar_main h jxa input)) = 2
          \<and> obj_get (printed (fst (calendar_main h jxa input))) ''ok'' = Some (JBool False)
          \<and> obj_get (printed (fst (calendar_main h jxa input))) ''supportedActions''
              = Some (JArr (map JStr calendar_supportedActions))
          \<and> snd (calendar_main h jxa input) = [])
       \<and> (a \<notin> set mowen_supportedActions \<longrightarrow>
            exit_code (fst (mowen_main h fetch build input mw)) = 2
          \<and> obj_get (printed (fst (mowen_main h fetch build input mw))) ''ok'' = Some (JBool False)
          \<and> (\<exists>msg. obj_get (printed (fst (mowen_main h fetch build input mw))) ''error'' = Some (JStr msg))
          \<and> obj_get (printed (fst (mowen_main h fetch build input mw))) ''supportedActions'' = None
          \<and> snd (mowen_main h fetch build input mw) = mw
          \<and> (readString (obj_get envelope ''domain'') \<in> {None, Some ''mowen''}
               \<and> ms_apiKey (resolveSettings h envelope) \<noteq> None \<longrightarrow>
              printed (fst (mowen_main h fetch build input mw))
                = mowen_rejection a a (unsupportedActionMessage a)))"
proof (intro conjI impI)
  assume a: "a \<notin> set mail_supportedActions"
  then have d: "dispatch h run planOf envelope a w =
      (Done \<lparr> exitCode = 2,
              body = envelopeErrorResponse a
                [(''error'', JStr (''unsupported action '' @ [CHR 0x27] @ a @ [CHR 0x27])),
                 (''supportedActions'', JArr (map JStr mail_supportedActions))] \<rparr>, w)"
    by (simp add: dispatch_def mail_supportedActions_def)
  have m: "mail_main h run planOf input w =
      (\<lparr> exit_code = 2,
         printed = envelopeErrorResponse a
                [(''error'', JStr (''unsupported action '' @ [CHR 0x27] @ a @ [CHR 0x27])),
                 (''supportedActions'', JArr (map JStr mail_supportedActions))] \<rparr>, w)"
    using assms by (simp add: mail_main_def d)
  show "exit_code (fst (mail_main h run planOf input w)) = 2"
    and "snd (mail_main h run planOf input w) = w"
    by (simp_all add: m)
  show "obj_get (printed (fst (mail_main h run planOf input w))) ''ok'' = Some (JBool False)"
    and "obj_get (printed (fst (mail_main h run planOf input w))) ''supportedActions''
              = Some (JArr (map JStr mail_supportedActions))"
    by (simp_all add: m envelopeErrorResponse_def spread_def)
next
  assume a: "a \<notin> set calendar_supportedActions"
  have c: "calendar_main h jxa input =
      (\<lparr> exit_code = 2,
         printed = JObj [(''ok'', JBool False), (''domain'', JStr ''calendar''),
                         (''adapter'', JStr ''macos-calendar-jxa''),
                         (''action'', JStr a),
                         (''error'', JStr (''unsupported action '' @ [CHR 0x27] @ a @ [CHR 0x27])),
                         (''supportedActions'', JArr (map JStr calendar_supportedActions))] \<rparr>, [])"
    using assms a by (simp add: calendar_main_def)
  show "exit_code (fst (calendar_main h jxa input)) = 2"
    and "obj_get (printed (fst (calendar_main h jxa input))) ''ok'' = Some (JBool False)"
    and "obj_get (printed (fst (calendar_main h jxa input))) ''supportedActions''
              = Some (JArr (map JStr calendar_supportedActions))"
    and "snd (calendar_main h jxa input) = []"
    by (simp_all add: c)
next
  assume a: "a \<notin> set mowen_supportedActions"
  note un = normalizeAction_unsupported [OF a] resolveEndpointAndRequest_unsupported [OF a]
  have nh: "a \<noteq> ''health''"
    using a by (auto simp: mowen_supportedActions_def)
  show "exit_code (fst (mowen_main h fetch build input mw)) = 2"
    using assms nh by (simp add: mowen_main_def Let_def un)
  show "obj_get (printed (fst (mowen_main h fetch build input mw))) ''ok'' = Some (JBool False)"
    using assms nh by (simp add: mowen_main_def Let_def un mowen_rejection_def)
  show "\<exists>msg. obj_get (printed (fst (mowen_main h fetch build input mw))) ''error'' = Some (JStr msg)"
    using assms nh by (simp add: mowen_main_def Let_def un mowen_rejection_def)
  show "obj_get (printed (fst (mowen_main h fetch build input mw))) ''supportedActions'' = None"
    using assms nh by (simp add: mowen_main_def Let_def un mowen_rejection_def)
  show "snd (mowen_main h fetch build input mw) = mw"
    using assms nh by (simp add: mowen_main_def Let_def un)
  assume "readString (obj_get envelope ''domain'') \<in> {None, Some ''mowen''}
          \<and> ms_apiKey (resolveSettings h envelope) \<noteq> None"
  then show "printed (fst (mowen_main h fetch build input mw))
                = mowen_rejection a a (unsupportedActionMessage a)"
    using assms nh by (auto simp add: mowen_main_def Let_def un)
qed

theorem unknown_action_rejected_witness:
  "(exit_code (fst (mail_main example_host (exiting 0) rejecting_planner frobnicate_input empty_world)) = 2
    \<and> obj_get (printed (fst (mail_main example_host (exiting 0) rejecting_planner frobnicate_input empty_world)))
        ''ok'' = Some (JBool False)
    \<and> obj_get (printed (fst (mail_main example_host (exiting 0) rejecting_planner frobnicate_input empty_world)))
        ''supportedActions'' = Some (JArr (map JStr mail_supportedActions))
    \<and> snd (mail_main example_host (exiting 0) rejecting_planner frobnicate_input empty_world) = empty_world)
   \<and> (exit_code (fst (calendar_main example_host no_jxa frobnicate_input)) = 2
    \<and> obj_get (printed (fst (calendar_main example_host no_jxa frobnicate_input))) ''ok'' = Some (JBool False)
    \<and> obj_get (printed (fst (calendar_main example_host no_jxa frobnicate_input))) ''supportedActions''
        = Some (JArr (map JStr calendar_supportedActions))
    \<and> snd (calendar_main example_host no_jxa frobnicate_input) = [])
   \<and> (exit_code (fst (mowen_main configured_host no_fetch no_builder frobnicate_input empty_mworld)) = 2
    \<and> obj_get (printed (fst (mowen_main configured_host no_fetch no_builder frobnicate_input empty_mworld)))
        ''ok'' = Some (JBool False)
    \<and> obj_get (printed (fst (mowen_main configured_host no_fetch no_builder frobnicate_input empty_mworld)))
        ''supportedActions'' = None
    \<and> snd (mowen_main configured_host no_fetch no_builder frobnicate_input empty_mworld) = empty_mworld
    \<and> printed (fst (mowen_main configured_host no_fetch no_builder frobnicate_input empty_mworld))
        = mowen_rejection ''frobnicate'' ''frobnicate'' (unsupportedActionMessage ''frobnicate''))"
proof -
  have 1: "readJsonStdin example_host frobnicate_input = Done frobnicate_envelope" by code_simp
  have c1: "readJsonStdin configured_host frobnicate_input = Done frobnicate_envelope" by code_simp
  have 2: "isRecord (Some frobnicate_envelope)" by code_simp
  have 3: "readString (obj_get frobnicate_envelope ''action'') = Some ''frobnicate''" by code_simp
  have 4: "''frobnicate'' \<notin> set mail_supportedActions" by code_simp
  have 5: "''frobnicate'' \<notin> set calendar_supportedActions" by code_simp
  have 6: "''frobnicate'' \<notin> set mowen_supportedActions" by code_simp
  have 7: "readString (obj_get frobnicate_envelope ''domain'') \<in> {None, Some ''mowen''}
           \<and> ms_apiKey (resolveSettings configured_host frobnicate_envelope) \<noteq> None"
    by code_simp
  from 4 5 6 7
    unknown_action_rejected [OF 1 2 3, where run = "exiting 0" and planOf = rejecting_planner
      and w = empty_world and jxa = no_jxa and fetch = no_fetch and build = no_builder
      and mw = empty_mworld]
    unknown_action_rejected [OF c1 2 3, where run = "exiting 0" and planOf = rejecting_planner
      and w = empty_world and jxa = no_jxa and fetch = no_fetch and build = no_builder
      and mw = empty_mworld]
  show ?thesis by blast
qed

text \<open>Claim C4 as stated fails for the notes adapter: with an API key configured, an
  unknown action is answered by an error message alone; the response lists no
  supported actions.\<close>

theorem notes_unknown_action_lists_nothing:
  "printed (fst (mowen_main configured_host no_fetch no_builder frobnicate_input empty_mworld))
     = JObj [(''ok'', JBool False), (''domain'', JStr ''mowen''), (''action'', JStr ''frobnicate''),
             (''mappedAction'', JStr ''frobnicate''), (''adapter'', JStr ''mowen-openapi''),
             (''error'', JStr ''unsupported action: frobnicate'')]
   \<and> obj_get (printed (fst (mowen_main configured_host no_fetch no_builder frobnicate_input empty_mworld)))
        ''supportedActions'' = None"
  by code_simp

text \<open>
  Claim C9.  Let the envelope read by the notes adapter name the action \<^verbatim>\<open>health\<close>.
  Then the run leaves the world as it found it: no request is sent, the rate-limit
  document is not read or written and the process does not sleep.  When the domain is
  absent or \<^verbatim>\<open>mowen\<close>, the process exits with code 0 and prints
  \<^verbatim>\<open>sanitizeForHealth\<close> of the settings, which are computed from the environment and
  the envelope alone, whether an API key is configured or not.
\<close>

theorem notes_health_is_local:
  assumes "readJsonStdin h input = Done envelope" and "isRecord (Some envelope)"
    and "readString (obj_get envelope ''action'') = Some ''health''"
  shows "snd (mowen_main h fetch build input w) = w
       \<and> (readString (obj_get envelope ''domain'') \<in> {None, Some ''mowen''} \<longrightarrow>
            fst (mowen_main h fetch build input w)
              = \<lparr> exit_code = 0, printed = sanitizeForHealth (resolveSettings h envelope) \<rparr>)"
  using assms by (auto simp add: mowen_main_def Let_def normalizeAction_def)

theorem notes_health_is_local_witness:
  "(snd (mowen_main example_host no_fetch no_builder health_input empty_mworld) = empty_mworld
    \<and> fst (mowen_main example_host no_fetch no_builder health_input empty_mworld)
        = \<lparr> exit_code = 0, printed = sanitizeForHealth (resolveSettings example_host health_envelope) \<rparr>
    \<and> obj_get (sanitizeForHealth (resolveSettings example_host health_envelope)) ''ok'' = Some (JBool False))
   \<and> (snd (mowen_main configured_host no_fetch no_builder health_input empty_mworld) = empty_mworld
    \<and> fst (mowen_main configured_host no_fetch no_builder health_input empty_mworld)
        = \<lparr> exit_code = 0, printed = sanitizeForHealth (resolveSettings configured_host health_envelope) \<rparr>
    \<and> obj_get (sanitizeForHealth (resolveSettings configured_host health_envelope)) ''ok'' = Some (JBool True))"
proof -
  have 1: "readJsonStdin example_host health_input = Done health_envelope" by code_simp
  have c1: "readJsonStdin configured_host health_input = Done health_envelope" by code_simp
  have 2: "isRecord (Some health_envelope)" by code_simp
  have 3: "readString (obj_get health_envelope ''action'') = Some ''health''" by code_simp
  have 4: "readString (obj_get health_envelope ''domain'') \<in> {None, Some ''mowen''}" by code_simp
  have 5: "obj_get (sanitizeForHealth (resolveSettings example_host health_envelope)) ''ok'' = Some (JBool False)"
    by code_simp
  have 6: "obj_get (sanitizeForHealth (resolveSettings configured_host health_envelope)) ''ok'' = Some (JBool True)"
    by code_simp
  from 4 5 6
    notes_health_is_local [OF 1 2 3, of no_fetch no_builder empty_mworld]
    notes_health_is_local [OF c1 2 3, of no_fetch no_builder empty_mworld]
  show ?thesis by blast
qed

text \<open>
  Claim C10, as the code has it.  The notes adapter trims the domain before it compares
  it.  An envelope whose domain, once trimmed, is non-empty and differs from
  \<^verbatim>\<open>mowen\<close> is rejected with exit code 2 and \<^verbatim>\<open>ok: false\<close>, and the world is left as
  it was; when the envelope names an action, the response is the two fields \<^verbatim>\<open>ok\<close>
  and \<^verbatim>\<open>error\<close>, whatever the action.  An envelope without a domain is treated as the
  same envelope with the domain \<^verbatim>\<open>mowen\<close>.
\<close>

theorem notes_domain_gate:
  assumes "readJsonStdin h input = Done envelope" and "isRecord (Some envelope)"
  shows "(readString (obj_get envelope ''domain'') = Some d \<and> d \<noteq> ''mowen'' \<longrightarrow>
            exit_code (fst (mowen_main h fetch build input w)) = 2
          \<and> obj_get (printed (fst (mowen_main h fetch build input w))) ''ok'' = Some (JBool False)
          \<and> snd (mowen_main h fetch build input w) = w
          \<and> (readString (obj_get envelope ''action'') \<noteq> None \<longrightarrow>
               printed (fst (mowen_main h fetch build input w))
                 = JObj [(''ok'', JBool False),
                         (''error'', JStr (''unexpected domain '' @ [CHR 0x27] @ d @ [CHR 0x27]
                                           @ '', expected '' @ [CHR 0x27] @ ''mowen'' @ [CHR 0x27]))]))
       \<and> (obj_get envelope ''domain'' = None
           \<and> readJsonStdin h input' = Done (obj_set ''domain'' (JStr ''mowen'') envelope) \<longrightarrow>
            mowen_main h fetch build input w = mowen_main h fetch build input' w)"
proof (intro conjI impI)
  assume d: "readString (obj_get envelope ''domain'') = Some d \<and> d \<noteq> ''mowen''"
  with assms show "exit_code (fst (mowen_main h fetch build input w)) = 2"
    by (auto simp add: mowen_main_def Let_def split: option.splits)
  from d assms show "obj_get (printed (fst (mowen_main h fetch build input w))) ''ok'' = Some (JBool False)"
    by (auto simp add: mowen_main_def Let_def split: option.splits)
  from d assms show "snd (mowen_main h fetch build input w) = w"
    by (auto simp add: mowen_main_def Let_def split: option.splits)
  assume "readString (obj_get envelope ''action'') \<noteq> None"
  with d assms show "printed (fst (mowen_main h fetch build input w))
                 = JObj [(''ok'', JBool False),
                         (''error'', JStr (''unexpected domain '' @ [CHR 0x27] @ d @ [CHR 0x27]
                                           @ '', expected '' @ [CHR 0x27] @ ''mowen'' @ [CHR 0x27]))]"
    by (auto simp add: mowen_main_def Let_def split: option.splits)
next
  assume a: "obj_get envelope ''domain'' = None
           \<and> readJsonStdin h input' = Done (obj_set ''domain'' (JStr ''mowen'') envelope)"
  from assms(2) obtain kvs where e: "envelope = JObj kvs"
    by (cases envelope) auto
  have g: "\<And>k. k \<noteq> ''domain'' \<Longrightarrow>
             obj_get (obj_set ''domain'' (JStr ''mowen'') envelope) k = obj_get envelope k"
    by (simp add: e map_of_assoc_set)
  have dm: "readString (obj_get (obj_set ''domain'' (JStr ''mowen'') envelope) ''domain'') = Some ''mowen''"
    by (simp add: e map_of_assoc_set) code_simp
  have rs: "resolveSettings h (obj_set ''domain'' (JStr ''mowen'') envelope) = resolveSettings h envelope"
    by (simp add: resolveSettings_def g)
  have ir: "isRecord (Some (obj_set ''domain'' (JStr ''mowen'') envelope))"
    by (simp add: e)
  from a have nd: "readString (obj_get envelope ''domain'') = None" by simp
  from a have p': "readJsonStdin h input' = Done (obj_set ''domain'' (JStr ''mowen'') envelope)"
    by simp
  show "mowen_main h fetch build input w = mowen_main h fetch build input' w"
  proof (cases "readString (obj_get envelope ''action'')")
    case None
    with assms p' show ?thesis
      by (simp add: mowen_main_def g ir del: readString.simps obj_set.simps)
  next
    case (Some action)
    with assms p' show ?thesis
      by (simp add: mowen_main_def Let_def g dm rs ir nd del: readString.simps obj_set.simps)
  qed
qed

theorem notes_domain_gate_witness:
  "(exit_code (fst (mowen_main configured_host no_fetch no_builder notes_domain_input empty_mworld)) = 2
    \<and> obj_get (printed (fst (mowen_main configured_host no_fetch no_builder notes_domain_input empty_mworld)))
        ''ok'' = Some (JBool False)
    \<and> snd (mowen_main configured_host no_fetch no_builder notes_domain_input empty_mworld) = empty_mworld)
   \<and> mowen_main configured_host no_fetch no_builder health_input empty_mworld
       = mowen_main configured_host no_fetch no_builder mowen_domain_input empty_mworld"
proof -
  have 1: "readJsonStdin configured_host notes_domain_input = Done notes_domain_envelope" by code_simp
  have 2: "isRecord (Some notes_domain_envelope)" by code_simp
  have 3: "readString (obj_get notes_domain_envelope ''domain'') = Some ''notes'' \<and> ''notes'' \<noteq> ''mowen''"
    by code_simp
  have 4: "readJsonStdin configured_host health_input = Done health_envelope" by code_simp
  have 5: "isRecord (Some health_envelope)" by code_simp
  have 6: "obj_get health_envelope ''domain'' = None
           \<and> readJsonStdin configured_host mowen_domain_input
               = Done (obj_set ''domain'' (JStr ''mowen'') health_envelope)"
    by code_simp
  from 3 6
    notes_domain_gate [OF 1 2, where d = "''notes''" and fetch = no_fetch and build = no_builder
      and w = empty_mworld]
    notes_domain_gate [OF 4 5, where input' = mowen_domain_input and fetch = no_fetch
      and build = no_builder and w = empty_mworld]
  show ?thesis by blast
qed

text \<open>Claim C10 as stated fails: the domain \<^verbatim>\<open>" mowen"\<close> is a non-empty string
  different from \<^verbatim>\<open>"mowen"\<close>, and the notes adapter accepts it.\<close>

theorem padded_mowen_domain_is_accepted:
  "'' mowen'' \<noteq> ''mowen''
   \<and> exit_code (fst (mowen_main configured_host no_fetch no_builder padded_domain_input empty_mworld)) = 0
   \<and> obj_get (printed (fst (mowen_main configured_host no_fetch no_builder padded_domain_input empty_mworld)))
        ''ok'' = Some (JBool True)"
  by code_simp

section \<open>Properties of the calendar script\<close>

lemma set_insert_by: "set (insert_by le x xs) = insert x (set xs)"
  by (induction xs) auto

lemma set_sort_by: "set (sort_by le xs) = set xs"
  unfolding sort_by_def by (induction xs) (auto simp: set_insert_by)

lemma length_insert_by: "length (insert_by le x xs) = Suc (length xs)"
  by (induction xs) auto

lemma length_sort_by: "length (sort_by le xs) = length xs"
  unfolding sort_by_def by (induction xs) (auto simp: length_insert_by)

lemma overlaps_without_notes: "overlaps rng (row\<lparr> row_notes := None \<rparr>) = overlaps rng row"
  by (simp add: overlaps_def)

lemma calendar_rows_sound:
  assumes "row \<in> set (calendar_rows e rng q n cal)"
  shows "overlaps rng row"
  using assms
  by (auto simp: calendar_rows_def keeps_row_def overlaps_without_notes)

text \<open>The filtered collection that the application is asked for makes no difference:
  every event that passes the script's own test is in it.\<close>

lemma events_whose_complete:
  assumes "ev \<in> set (cal_events cal)" and "overlaps rng (eventToJson ev name)"
  shows "ev \<in> set (events_whose cal rng)"
  using assms
  by (auto simp: events_whose_def overlaps_def eventToJson_def Let_def split: option.splits)

lemma calendar_rows_complete:
  assumes "ev \<in> set (cal_events cal)"
    and "keeps_row e rng q n (eventToJson ev (cal_name cal))"
  shows "(if n then eventToJson ev (cal_name cal)
          else (eventToJson ev (cal_name cal))\<lparr> row_notes := None \<rparr>)
         \<in> set (calendar_rows e rng q n cal)"
proof -
  from assms(2) have "overlaps rng (eventToJson ev (cal_name cal))"
    by (simp add: keeps_row_def)
  with assms(1) have "ev \<in> set (events_whose cal rng)"
    by (rule events_whose_complete)
  with assms(2) have "eventToJson ev (cal_name cal)
      \<in> set (filter (keeps_row e rng q n)
                (map (\<lambda>ev. eventToJson ev (cal_name cal)) (events_whose cal rng)))"
    by simp
  then show ?thesis
    unfolding calendar_rows_def set_map by (rule rev_image_eqI) simp
qed

lemma listEvents_result:
  assumes "listEvents e cals payload action = Done l"
  shows "normalizeDateRange e payload = Done (listed_range l)
       \<and> items l =
           (if int (length (sort_by (row_before e) (found_rows e cals payload (listed_range l))))
                 > limit_of payload
            then take (nat (limit_of payload))
                   (sort_by (row_before e) (found_rows e cals payload (listed_range l)))
            else sort_by (row_before e) (found_rows e cals payload (listed_range l)))"
  using assms
  unfolding listEvents_def found_rows_def limit_of_def notes_wanted_def query_of_def Let_def
  by (auto split: attempt.splits)

text \<open>
  Claim C7, as the code has it.  Let \<^verbatim>\<open>listEvents\<close> return a listing for the range
  \<open>R\<close>.  Every listed row overlaps \<open>R\<close> in the half-open sense, its start before the
  end of \<open>R\<close> and its end after the start of \<open>R\<close>, so a row that starts at the end of
  \<open>R\<close> is not listed.  Conversely, an event of a selected calendar whose row has an
  identifier, overlaps \<open>R\<close> and matches the query is listed, provided the rows that
  pass these tests are no more than the limit; beyond the limit the listing is cut to
  its first rows in sort order.
\<close>

theorem listing_overlap:
  assumes "listEvents e cals payload action = Done l"
  shows "(\<forall>row \<in> set (items l).
            overlaps (listed_range l) row \<and> row_start row \<noteq> Some (range_end (listed_range l)))
       \<and> (\<forall>cal \<in> set (selectCalendars cals payload). \<forall>ev \<in> set (cal_events cal).
            keeps_row e (listed_range l) (query_of e payload) (notes_wanted payload)
                      (eventToJson ev (cal_name cal))
            \<and> int (length (found_rows e cals payload (listed_range l))) \<le> limit_of payload
            \<longrightarrow> shown_row payload cal ev \<in> set (items l))"
proof (intro conjI ballI impI)
  note r = listEvents_result [OF assms]
  fix row assume "row \<in> set (items l)"
  then have "row \<in> set (sort_by (row_before e) (found_rows e cals payload (listed_range l)))"
    using r by (auto split: if_splits dest: in_set_takeD)
  then have "row \<in> set (found_rows e cals payload (listed_range l))"
    by (simp add: set_sort_by)
  then show o: "overlaps (listed_range l) row"
    by (auto simp: found_rows_def dest: calendar_rows_sound)
  then show "row_start row \<noteq> Some (range_end (listed_range l))"
    by (auto simp: overlaps_def split: option.splits)
next
  note r = listEvents_result [OF assms]
  fix cal ev
  assume cal: "cal \<in> set (selectCalendars cals payload)" and ev: "ev \<in> set (cal_events cal)"
    and k: "keeps_row e (listed_range l) (query_of e payload) (notes_wanted payload)
                      (eventToJson ev (cal_name cal))
            \<and> int (length (found_rows e cals payload (listed_range l))) \<le> limit_of payload"
  from k have all: "items l = sort_by (row_before e) (found_rows e cals payload (listed_range l))"
    using r by (simp add: length_sort_by)
  from calendar_rows_complete [OF ev conjunct1 [OF k]]
  have "shown_row payload cal ev
          \<in> set (calendar_rows e (listed_range l) (query_of e payload) (notes_wanted payload) cal)"
    by (simp add: shown_row_def)
  with cal have "shown_row payload cal ev \<in> set (found_rows e cals payload (listed_range l))"
    by (auto simp: found_rows_def)
  then show "shown_row payload cal ev \<in> set (items l)"
    by (simp add: all set_sort_by)
qed

theorem listing_overlap_witness:
  "overlaps \<lparr> range_start = 37800000, range_end = 41400000 \<rparr> (eventToJson standup (Some ''Work''))
   \<and> row_start (eventToJson standup (Some ''Work'')) \<noteq> Some 41400000
   \<and> overlaps \<lparr> range_start = 37800000, range_end = 41400000 \<rparr> (eventToJson review (Some ''Work''))
   \<and> row_start (eventToJson review (Some ''Work'')) \<noteq> Some 41400000
   \<and> shown_row range_payload work standup
       \<in> set [eventToJson standup (Some ''Work''), eventToJson review (Some ''Work'')]"
proof -
  define l where
    "l = \<lparr> items = [eventToJson standup (Some ''Work''), eventToJson review (Some ''Work'')],
           count = 2, listed_range = \<lparr> range_start = 37800000, range_end = 41400000 \<rparr>,
           listed_action = ''list_events'' \<rparr>"
  have 1: "listEvents utc_engine [work] range_payload ''list_events'' = Done l"
    unfolding l_def by code_simp
  have 2: "work \<in> set (selectCalendars [work] range_payload)" by code_simp
  have 3: "standup \<in> set (cal_events work)" by code_simp
  have 4: "keeps_row utc_engine (listed_range l) (query_of utc_engine range_payload)
             (notes_wanted range_payload) (eventToJson standup (cal_name work))
           \<and> int (length (found_rows utc_engine [work] range_payload (listed_range l)))
               \<le> limit_of range_payload"
    unfolding l_def by code_simp
  from listing_overlap [OF 1] 2 3 4
  have "(\<forall>row \<in> set (items l).
            overlaps (listed_range l) row \<and> row_start row \<noteq> Some (range_end (listed_range l)))
        \<and> shown_row range_payload work standup \<in> set (items l)"
    by blast
  then show ?thesis by (simp add: l_def)
qed

text \<open>Claim C7 as stated fails: with a limit of one item, the review (10:15 to 10:45)
  overlaps the range from 10:30 to 11:30 and is not listed.\<close>

theorem overlapping_event_cut_by_limit:
  "listEvents utc_engine [work] limited_payload ''list_events''
     = Done \<lparr> items = [eventToJson standup (Some ''Work'')], count = 1,
              listed_range = \<lparr> range_start = 37800000, range_end = 41400000 \<rparr>,
              listed_action = ''list_events'' \<rparr>
   \<and> review \<in> set (cal_events work)
   \<and> ev_startDate review = Some 36900000 \<and> (36900000 :: int) < 41400000
   \<and> ev_endDate review = Some 38700000 \<and> (38700000 :: int) > 37800000
   \<and> eventToJson review (Some ''Work'') \<notin> set [eventToJson standup (Some ''Work'')]"
  by code_simp

text \<open>The lunch, which starts when the range ends, is left out, and the stand-up, which
  begins before the range, is listed.\<close>

lemma listing_of_the_example:
  "listEvents utc_engine [work] range_payload ''list_events''
     = Done \<lparr> items = [eventToJson standup (Some ''Work''), eventToJson review (Some ''Work'')],
              count = 2, listed_range = \<lparr> range_start = 37800000, range_end = 41400000 \<rparr>,
              listed_action = ''list_events'' \<rparr>"
  by code_simp








text \<open>The event that \<^verbatim>\<open>createEvent\<close> hands to the application carries the times of
  \<^verbatim>\<open>ensureEventTimes\<close>.\<close>

lemma createEvent_times:
  assumes "createEvent e cals cfg payload = Done (ev, cals')"
  shows "\<exists>tm. ensureEventTimes e payload = Done tm \<and> ev_startDate ev = Some (et_start tm)
              \<and> ev_endDate ev = Some (et_end tm) \<and> ev_allday ev = et_allDay tm"
  using assms unfolding createEvent_def Let_def
  by (auto split: option.splits attempt.splits)

end
